theory Spec2Isabelle
  imports Complex_Main
begin

section \<open>Values shared by the attention modules\<close>

text \<open>
  An additive attention mask holds the float \<open>0.\<close> or \<open>float('-inf')\<close>; every other float of
  the model is a real number (exact arithmetic).
\<close>

datatype xreal = NegInf | Fin real

text \<open>
  The exceptions the modelled statements can raise. \<open>RuntimeError\<close> is what torch raises for
  a shape it cannot use and for an integer division of a tensor by zero.
\<close>

datatype error =
    ZeroDivisionError
  | IndexError
  | TypeError
  | AttributeError
  | AssertionError
  | ValueError
  | UnboundLocalError
  | RuntimeError

text \<open>Sequencing of statements that may raise: the first exception ends the computation.\<close>

definition andthen :: "error + 'a \<Rightarrow> ('a \<Rightarrow> error + 'b) \<Rightarrow> error + 'b" where
  "andthen r f = (case r of Inl e \<Rightarrow> Inl e | Inr v \<Rightarrow> f v)"

section \<open>GSAttention.forward: the causal mask over spatially reduced keys\<close>

text \<open>
  \<open>N_reduce = int(H * W // self.sr_ratio // self.sr_ratio)\<close>, the first statement of
  \<open>GSAttention.forward\<close> after reading the shape. The operands are Python ints, so a zero
  \<open>sr_ratio\<close> raises.
\<close>

definition gsa_N_reduce :: "nat \<Rightarrow> nat \<Rightarrow> nat \<Rightarrow> error + nat" where
  "gsa_N_reduce H W sr_ratio =
     (if sr_ratio = 0 then Inl ZeroDivisionError else Inr (H * W div sr_ratio div sr_ratio))"

text \<open>
  Lines 682 to 692 of \<open>my_models.py\<close>, one list per tensor:
  \<^verbatim>\<open>
  flat_patch_pos = torch.arange(0, H * W, device=x.device)
  x_pos = flat_patch_pos // (self.sr_ratio * H)
  origin_x_pos = flat_patch_pos // H
  origin_y_pos = flat_patch_pos % H
  flat_patch_pos_for_y = origin_x_pos + origin_y_pos * H
  y_pos = flat_patch_pos_for_y // (self.sr_ratio * H)
  token_visible_num = x_pos * self.sr_ratio + y_pos + 1
  \<close>
  A non-empty \<open>flat_patch_pos\<close> has \<open>0 < H\<close>, and \<open>sr_ratio\<close> is positive once
  \<open>gsa_N_reduce\<close> has returned, so no divisor is zero where an element is computed.
\<close>

definition gsa_token_visible_num :: "nat \<Rightarrow> nat \<Rightarrow> nat \<Rightarrow> nat list" where
  "gsa_token_visible_num H W sr_ratio =
     (let flat_patch_pos = [0..<H * W];
          x_pos = map (\<lambda>p. p div (sr_ratio * H)) flat_patch_pos;
          origin_x_pos = map (\<lambda>p. p div H) flat_patch_pos;
          origin_y_pos = map (\<lambda>p. p mod H) flat_patch_pos;
          flat_patch_pos_for_y = map2 (\<lambda>ox oy. ox + oy * H) origin_x_pos origin_y_pos;
          y_pos = map (\<lambda>p. p div (sr_ratio * H)) flat_patch_pos_for_y
      in map2 (\<lambda>xp yp. xp * sr_ratio + yp + 1) x_pos y_pos)"

text \<open>
  Lines 695 to 699: a \<open>(H * W, N_reduce)\<close> tensor of \<open>-inf\<close>, set to \<open>0.\<close> where
  \<open>col_indices < token_visible_num.unsqueeze(1)\<close>.
\<close>

definition gsa_fill_mask :: "nat list \<Rightarrow> nat \<Rightarrow> xreal list list" where
  "gsa_fill_mask token_visible_num N_reduce =
     map (\<lambda>visible. map (\<lambda>col. if col < visible then Fin 0 else NegInf) [0..<N_reduce])
       token_visible_num"

definition gsa_causal_mask :: "nat \<Rightarrow> nat \<Rightarrow> nat \<Rightarrow> error + xreal list list" where
  "gsa_causal_mask H W sr_ratio =
     (case gsa_N_reduce H W sr_ratio of
        Inl e \<Rightarrow> Inl e
      | Inr N_reduce \<Rightarrow> Inr (gsa_fill_mask (gsa_token_visible_num H W sr_ratio) N_reduce))"

text \<open>
  \<open>my_py/test.py\<close> runs the same statements at module level with
  \<open>H = W = 4\<close>, \<open>sr_ratio = 2\<close>, \<open>N_reduce = 4\<close>.
\<close>

definition test_token_visible_num :: "nat list" where
  "test_token_visible_num =
     (let H = 4; W = 4; sr_ratio = 2;
          flat_patch_pos = [0..<H * W];
          x_pos = map (\<lambda>p. p div (sr_ratio * H)) flat_patch_pos;
          origin_x_pos = map (\<lambda>p. p div H) flat_patch_pos;
          origin_y_pos = map (\<lambda>p. p mod H) flat_patch_pos;
          flat_patch_pos_for_y = map2 (\<lambda>ox oy. ox + oy * H) origin_x_pos origin_y_pos;
          y_pos = map (\<lambda>p. p div (sr_ratio * H)) flat_patch_pos_for_y
      in map2 (\<lambda>xp yp. xp * sr_ratio + yp + 1) x_pos y_pos)"

section \<open>RAttention.__init__: the cached causal masks\<close>

text \<open>Python's \<open>int(x)\<close> on a float truncates toward zero.\<close>

definition py_int :: "real \<Rightarrow> int" where
  "py_int r = (if 0 \<le> r then \<lfloor>r\<rfloor> else \<lceil>r\<rceil>)"

text \<open>
  \<open>create_causal_mask(size)\<close>: \<open>torch.triu(torch.ones(size, size), diagonal=1)\<close> is 1 strictly
  above the diagonal; the two \<open>masked_fill\<close> calls test that tensor and write \<open>-inf\<close> over
  its ones and \<open>0.0\<close> over its zeros.
\<close>

definition create_causal_mask :: "nat \<Rightarrow> xreal list list" where
  "create_causal_mask sz =
     (let mask = map (\<lambda>i. map (\<lambda>j. if i < j then (1::real) else 0) [0..<sz]) [0..<sz]
      in map (map (\<lambda>e. if e = 1 then NegInf else Fin 0)) mask)"

text \<open>
  The inner loops of the 2D branch, for one position \<open>(x, y)\<close>:
  \<^verbatim>\<open>
  for row in range(x + 1):
      for col in range(y + 1):
          visible_pos.append(int(row * H + col))
  \<close>
  \<open>H\<close> is the float \<open>token_num ** 0.5\<close>.
\<close>

definition visible_pos_2d :: "real \<Rightarrow> nat \<Rightarrow> nat \<Rightarrow> nat list" where
  "visible_pos_2d H x y =
     concat (map (\<lambda>row. map (\<lambda>col. nat (py_int (real row * H + real col))) [0..<y + 1])
                 [0..<x + 1])"

text \<open>
  \<open>self.casual_mask[i, pos_list] = 0\<close> on one row: an index beyond the row raises.
\<close>

definition index_fill_zero :: "xreal list \<Rightarrow> nat list \<Rightarrow> error + xreal list" where
  "index_fill_zero row pos_list =
     (if \<forall>j \<in> set pos_list. j < length row
      then Inr (fold (\<lambda>j r. r[j := Fin 0]) pos_list row)
      else Inl IndexError)"

text \<open>The loop over the rows stops at the first row that raises.\<close>

fun collect_rows :: "(error + 'a) list \<Rightarrow> error + 'a list" where
  "collect_rows [] = Inr []"
| "collect_rows (Inl e # rs) = Inl e"
| "collect_rows (Inr r # rs) = (case collect_rows rs of Inl e \<Rightarrow> Inl e | Inr rs' \<Rightarrow> Inr (r # rs'))"

text \<open>
  \<^verbatim>\<open>
  new_mask = torch.full((token_num + 1, token_num + 1), float(0.))
  new_mask[1: token_num + 1, 1:token_num + 1] = casual_mask
  \<close>
\<close>

definition pad_cls_mask :: "nat \<Rightarrow> xreal list list \<Rightarrow> xreal list list" where
  "pad_cls_mask token_num casual_mask =
     replicate (token_num + 1) (Fin 0) # map (\<lambda>row. Fin 0 # row) casual_mask"

text \<open>
  The 2D branch (lines 336 to 354), with \<open>H\<close> taken as an argument:
  \<open>x_pos = flat_patch_pos // H\<close> and \<open>y_pos = flat_patch_pos % H\<close> are float floor division and
  remainder.
\<close>

definition casual_mask_2d_at :: "real \<Rightarrow> nat \<Rightarrow> error + xreal list list" where
  "casual_mask_2d_at H token_num =
     (let flat_patch_pos = [0..<token_num];
          x_pos = map (\<lambda>p. real_of_int \<lfloor>real p / H\<rfloor>) flat_patch_pos;
          y_pos = map (\<lambda>p. real p - H * real_of_int \<lfloor>real p / H\<rfloor>) flat_patch_pos;
          total_visible_pos =
            map2 (\<lambda>x y. visible_pos_2d H (nat (py_int x)) (nat (py_int y))) x_pos y_pos
      in collect_rows (map (index_fill_zero (replicate token_num NegInf)) total_visible_pos))"

text \<open>\<open>H = token_num ** 0.5\<close>, in exact real arithmetic.\<close>

definition casual_mask_2d :: "nat \<Rightarrow> error + xreal list list" where
  "casual_mask_2d token_num = casual_mask_2d_at (sqrt (real token_num)) token_num"

text \<open>
  The \<open>if self.casual_attn_2d: ... elif self.casual_attn_1d: ...\<close> statement of
  \<open>RAttention.__init__\<close>. The result is the attribute \<open>casual_mask\<close> after construction:
  \<open>None\<close> when no branch assigns it. In the 1D branch the mask is held in a local variable
  and reaches the attribute only under \<open>use_cls_token\<close>. \<open>token_num\<close> defaults to
  \<open>None\<close>: the 2D branch asserts against it, and \<open>torch.ones(None, None)\<close> raises a
  \<open>TypeError\<close> in the 1D branch.
\<close>

definition rattention_init_mask ::
  "bool \<Rightarrow> bool \<Rightarrow> nat option \<Rightarrow> bool \<Rightarrow> error + xreal list list option" where
  "rattention_init_mask casual_attn_1d casual_attn_2d token_num use_cls_token =
     (if casual_attn_2d then
        (case token_num of
           None \<Rightarrow> Inl AssertionError
         | Some n \<Rightarrow>
             (case casual_mask_2d n of
                Inl e \<Rightarrow> Inl e
              | Inr casual_mask \<Rightarrow>
                  Inr (Some (if use_cls_token then pad_cls_mask n casual_mask else casual_mask))))
      else if casual_attn_1d then
        (case token_num of
           None \<Rightarrow> Inl TypeError
         | Some n \<Rightarrow>
             (let casual_mask = create_causal_mask n
              in if use_cls_token then Inr (Some (pad_cls_mask n casual_mask)) else Inr None))
      else Inr None)"

section \<open>Frequency tables\<close>

text \<open>
  A table is a list of rows, one per position, of complex numbers. Floats are real numbers;
  \<open>theta ** e\<close> is \<open>theta powr e\<close>, which is the float power for a positive \<open>theta\<close>.
  \<open>dim\<close> and \<open>end\<close> are natural numbers, written \<open>rdim\<close> and \<open>endn\<close>.

  \<open>torch.arange(0, dim, step)[: (dim // step)]\<close>: the range has \<open>ceil(dim / step)\<close> elements and
  the slice keeps the first \<open>dim // step\<close> of them.
\<close>

definition arange_step :: "nat \<Rightarrow> nat \<Rightarrow> nat list" where
  "arange_step rdim step = map (\<lambda>k. k * step) [0..<(rdim + step - 1) div step]"

definition rope_freqs :: "nat \<Rightarrow> nat \<Rightarrow> real \<Rightarrow> real list" where
  "rope_freqs rdim step theta =
     map (\<lambda>k. 1 / (theta powr (real k / real rdim))) (take (rdim div step) (arange_step rdim step))"

text \<open>\<open>torch.outer(t, freqs)\<close> followed by \<open>torch.polar(torch.ones_like(freqs), freqs)\<close>.\<close>

definition outer_polar :: "real list \<Rightarrow> real list \<Rightarrow> complex list list" where
  "outer_polar t freqs = map (\<lambda>p. map (\<lambda>f. cis (p * f)) freqs) t"

definition precompute_freqs_cis :: "nat \<Rightarrow> nat \<Rightarrow> real \<Rightarrow> real \<Rightarrow> complex list list" where
  "precompute_freqs_cis rdim endn theta scale =
     (let freqs = rope_freqs rdim 2 theta;
          t = map (\<lambda>p. real p * scale) [0..<endn]
      in outer_polar t freqs)"

text \<open>
  \<open>torch.arange(0 if not use_cls else -1, end)\<close>. Integer \<open>%\<close> and \<open>//\<close> on it round toward
  minus infinity, as \<open>mod\<close> and \<open>div\<close> on \<open>int\<close> do.
\<close>

definition flat_patch_pos_of :: "bool \<Rightarrow> nat \<Rightarrow> int list" where
  "flat_patch_pos_of use_cls endn = (if use_cls then [-1] else []) @ map int [0..<endn]"

text \<open>
  \<^verbatim>\<open>
  freqs_cis = torch.cat([x_cis.unsqueeze(dim=-1), y_cis.unsqueeze(dim=-1)], dim=-1)
  freqs_cis = freqs_cis.reshape(end if not use_cls else end + 1, -1)
  \<close>
  The concatenation has shape \<open>(N, dim // 4, 2)\<close> with \<open>N\<close> the number of positions, which is
  the first size asked of \<open>reshape\<close>. \<open>reshape\<close> refuses to infer \<open>-1\<close> beside a size of zero.
\<close>

definition interleave_xy :: "complex list list \<Rightarrow> complex list list \<Rightarrow> error + complex list list" where
  "interleave_xy x_cis y_cis =
     (if x_cis = [] then Inl RuntimeError
      else Inr (map2 (\<lambda>xr yr. concat (map2 (\<lambda>x y. [x, y]) xr yr)) x_cis y_cis))"

text \<open>\<open>int(end ** 0.5)\<close>.\<close>

definition py_isqrt :: "nat \<Rightarrow> nat" where
  "py_isqrt endn = nat (py_int (sqrt (real endn)))"

text \<open>
  \<open>precompute_freqs_cis_2d\<close>. A zero \<open>H\<close> (that is, \<open>end = 0\<close>) fails in \<open>%\<close> when the class
  position is there to be divided, in \<open>reshape\<close> otherwise.
\<close>

definition precompute_freqs_cis_2d ::
  "nat \<Rightarrow> nat \<Rightarrow> real \<Rightarrow> real \<Rightarrow> bool \<Rightarrow> real \<Rightarrow> error + complex list list" where
  "precompute_freqs_cis_2d rdim endn theta scale use_cls cls_pos =
     (let H = py_isqrt endn;
          flat_patch_pos = flat_patch_pos_of use_cls endn
      in if H = 0 \<and> flat_patch_pos \<noteq> [] then Inl RuntimeError
         else
           let x_pos = map (\<lambda>p. real_of_int (p mod int H) * scale) flat_patch_pos;
               y_pos = map (\<lambda>p. real_of_int (p div int H) * scale) flat_patch_pos;
               x_pos = (if use_cls \<and> cls_pos \<noteq> -1 then x_pos[0 := cls_pos] else x_pos);
               y_pos = (if use_cls \<and> cls_pos \<noteq> -1 then y_pos[0 := cls_pos] else y_pos);
               freqs = rope_freqs rdim 4 theta;
               x_cis = outer_polar x_pos freqs;
               y_cis = outer_polar y_pos freqs
           in interleave_xy x_cis y_cis)"

text \<open>
  \<open>precompute_freqs_cis_2d_general\<close>: an explicit grid width \<open>W\<close> (\<open>0\<close> asks for
  \<open>int(end ** 0.5)\<close>), a coordinate \<open>step\<close> and a \<open>bias\<close>.
\<close>

definition precompute_freqs_cis_2d_general ::
  "nat \<Rightarrow> nat \<Rightarrow> nat \<Rightarrow> nat \<Rightarrow> real \<Rightarrow> real \<Rightarrow> real \<Rightarrow> bool \<Rightarrow> error + complex list list" where
  "precompute_freqs_cis_2d_general rdim endn step W bias theta scale use_cls =
     (let W = (if W = 0 then py_isqrt endn else W);
          flat_patch_pos = flat_patch_pos_of use_cls endn
      in if W = 0 \<and> flat_patch_pos \<noteq> [] then Inl RuntimeError
         else
           let x_pos = map (\<lambda>p. bias + real_of_int (p mod int W) * real step) flat_patch_pos;
               y_pos = map (\<lambda>p. bias + real_of_int (p div int W) * real step) flat_patch_pos;
               freqs = rope_freqs rdim 4 theta;
               x_pos = map (\<lambda>p. scale * p) x_pos;
               y_pos = map (\<lambda>p. scale * p) y_pos;
               x_cis = outer_polar x_pos freqs;
               y_cis = outer_polar y_pos freqs
           in interleave_xy x_cis y_cis)"

section \<open>The cached tables of MHSAttention, GroupAttention and GSAttention\<close>

text \<open>
  Each of these modules keeps its frequency table in an attribute that starts as \<open>None\<close> and
  is filled by the first statements of \<open>forward\<close>. Those statements are modelled here as a step
  from the module before the call to the module as the rest of \<open>forward\<close> reads it; the table
  the call applies is the attribute after the step. Only the attributes the step reads are in
  the records.

  \<open>int(self.dim // self.num_heads * self.rpe_ratio)\<close>: an integer floor division, a float
  product, a truncation.
\<close>

definition rpe_dim_of :: "nat \<Rightarrow> nat \<Rightarrow> real \<Rightarrow> error + int" where
  "rpe_dim_of dm num_heads rpe_ratio =
     (if num_heads = 0 then Inl ZeroDivisionError
      else Inr (py_int (real (dm div num_heads) * rpe_ratio)))"

text \<open>
  The table functions take \<open>dim\<close> as a natural number; \<open>torch.arange(0, dim, 4)\<close> raises on a
  negative one.
\<close>

definition with_dim :: "int \<Rightarrow> (nat \<Rightarrow> error + 'a) \<Rightarrow> error + 'a" where
  "with_dim d f = (if d < 0 then Inl RuntimeError else f (nat d))"

record mhsattention =
  mh_dim :: nat
  mh_num_heads :: nat
  mh_rpe_ratio :: real
  mh_use_cls_token :: bool
  mh_freqs_cis :: "complex list list option"

text \<open>
  \<open>MHSAttention.forward\<close>, lines 436 to 442; \<open>N\<close> is \<open>x.shape[1]\<close>. The defaults
  \<open>theta = 10000.0\<close>, \<open>scale = 1.0\<close> and \<open>cls_pos = -1\<close> are passed on.
\<close>

definition mhsa_build :: "mhsattention \<Rightarrow> nat \<Rightarrow> error + mhsattention" where
  "mhsa_build m N =
     (case rpe_dim_of (mh_dim m) (mh_num_heads m) (mh_rpe_ratio m) of
        Inl e \<Rightarrow> Inl e
      | Inr d \<Rightarrow>
          (case with_dim d (\<lambda>d. precompute_freqs_cis_2d d N 10000 1 (mh_use_cls_token m) (-1)) of
             Inl e \<Rightarrow> Inl e
           | Inr t \<Rightarrow> Inr (m\<lparr>mh_freqs_cis := Some t\<rparr>)))"

definition mhsa_cache_step :: "mhsattention \<Rightarrow> nat \<Rightarrow> error + mhsattention" where
  "mhsa_cache_step m N =
     (case mh_freqs_cis m of
        None \<Rightarrow> mhsa_build m N
      | Some t \<Rightarrow> if N \<noteq> length t then mhsa_build m N else Inr m)"

record groupattention =
  ga_dim :: nat
  ga_num_heads :: nat
  ga_ws :: nat
  ga_rpe_ratio :: real
  ga_use_cls_token :: bool
  ga_freqs_cis :: "complex list list option"

text \<open>\<open>GroupAttention.forward\<close>, lines 529 to 535: the table is built for \<open>ws * ws\<close> positions.\<close>

definition ga_build :: "groupattention \<Rightarrow> error + groupattention" where
  "ga_build m =
     (case rpe_dim_of (ga_dim m) (ga_num_heads m) (ga_rpe_ratio m) of
        Inl e \<Rightarrow> Inl e
      | Inr d \<Rightarrow>
          (case with_dim d
                  (\<lambda>d. precompute_freqs_cis_2d d (ga_ws m * ga_ws m) 10000 1 (ga_use_cls_token m) (-1)) of
             Inl e \<Rightarrow> Inl e
           | Inr t \<Rightarrow> Inr (m\<lparr>ga_freqs_cis := Some t\<rparr>)))"

definition ga_cache_step :: "groupattention \<Rightarrow> nat \<Rightarrow> error + groupattention" where
  "ga_cache_step m N =
     (case ga_freqs_cis m of
        None \<Rightarrow> ga_build m
      | Some t \<Rightarrow> if N \<noteq> length t then ga_build m else Inr m)"

record gsattention =
  gs_dim :: nat
  gs_num_heads :: nat
  gs_sr_ratio :: nat
  gs_rpe_ratio :: real
  gs_use_cls_token :: bool
  gs_auto_scale :: bool
  gs_use_ntk :: "real option"
  gs_q_freqs_cis :: "complex list list option"
  gs_k_freqs_cis :: "complex list list option"

text \<open>
  \<open>GSAttention.__init__\<close>: the assertion \<open>dim % num_heads == 0\<close>, then the attributes, with
  both tables \<open>None\<close>.
\<close>

definition gsattention_init ::
  "nat \<Rightarrow> nat \<Rightarrow> nat \<Rightarrow> real \<Rightarrow> bool \<Rightarrow> bool \<Rightarrow> real option \<Rightarrow> error + gsattention" where
  "gsattention_init dm num_heads sr_ratio rpe_ratio use_cls_token auto_scale use_ntk =
     (if num_heads = 0 then Inl ZeroDivisionError
      else if dm mod num_heads \<noteq> 0 then Inl AssertionError
      else Inr \<lparr>gs_dim = dm, gs_num_heads = num_heads, gs_sr_ratio = sr_ratio,
                gs_rpe_ratio = rpe_ratio, gs_use_cls_token = use_cls_token,
                gs_auto_scale = auto_scale, gs_use_ntk = use_ntk,
                gs_q_freqs_cis = None, gs_k_freqs_cis = None\<rparr>)"

text \<open>
  \<open>GSAttention.forward\<close>, lines 617 to 626. \<open>use_ntk\<close> is \<open>False\<close> (here \<open>None\<close>) or a number;
  \<open>base_size / H\<close> is a division of Python numbers.
\<close>

definition gsa_scale_theta :: "gsattention \<Rightarrow> nat \<Rightarrow> real \<Rightarrow> error + real \<times> real" where
  "gsa_scale_theta m H base_size =
     (case (if gs_auto_scale m
            then (if H = 0 then Inl ZeroDivisionError else Inr (base_size / real H))
            else Inr 1) of
        Inl e \<Rightarrow> Inl e
      | Inr scale \<Rightarrow>
          (case gs_use_ntk m of
             None \<Rightarrow> Inr (scale, 10000)
           | Some ntk \<Rightarrow> Inr (1, 10000 * ntk)))"

text \<open>
  The two calls of \<open>precompute_freqs_cis_2d_general\<close>: the query table over \<open>N\<close> positions
  with the call's \<open>theta\<close>, the key table over \<open>N_reduce\<close> positions with
  \<open>step=self.sr_ratio\<close>, \<open>bias=1.0 - 1.0 / self.sr_ratio\<close> and the default \<open>theta\<close>.
\<close>

definition gsa_q_table ::
  "gsattention \<Rightarrow> int \<Rightarrow> nat \<Rightarrow> nat \<Rightarrow> real \<Rightarrow> real \<Rightarrow> error + complex list list" where
  "gsa_q_table m rpe_dim N W theta scale =
     with_dim rpe_dim
       (\<lambda>d. precompute_freqs_cis_2d_general d N 1 W 0 theta scale (gs_use_cls_token m))"

definition gsa_k_table ::
  "gsattention \<Rightarrow> int \<Rightarrow> nat \<Rightarrow> nat \<Rightarrow> real \<Rightarrow> error + complex list list" where
  "gsa_k_table m rpe_dim N_reduce W scale =
     with_dim rpe_dim
       (\<lambda>d. precompute_freqs_cis_2d_general d N_reduce (gs_sr_ratio m) W
               (1 - 1 / real (gs_sr_ratio m)) 10000 scale (gs_use_cls_token m))"

text \<open>
  Lines 628 to 632:
  \<^verbatim>\<open>
  if self.q_freqs_cis is None and rpe_dim > 0:
      self.q_freqs_cis = precompute_freqs_cis_2d_general(...)
  else:
      if N != self.q_freqs_cis.shape[0]:
          self.q_freqs_cis = precompute_freqs_cis_2d_general(...)
  \<close>
  The \<open>else\<close> branch reads \<open>.shape\<close> of the attribute, which \<open>None\<close> does not have.
\<close>

definition gsa_q_step ::
  "gsattention \<Rightarrow> int \<Rightarrow> nat \<Rightarrow> nat \<Rightarrow> real \<Rightarrow> real \<Rightarrow> error + gsattention" where
  "gsa_q_step m rpe_dim N W theta scale =
     (if gs_q_freqs_cis m = None \<and> 0 < rpe_dim then
        (case gsa_q_table m rpe_dim N W theta scale of
           Inl e \<Rightarrow> Inl e
         | Inr t \<Rightarrow> Inr (m\<lparr>gs_q_freqs_cis := Some t\<rparr>))
      else
        (case gs_q_freqs_cis m of
           None \<Rightarrow> Inl AttributeError
         | Some t \<Rightarrow>
             if N \<noteq> length t then
               (case gsa_q_table m rpe_dim N W theta scale of
                  Inl e \<Rightarrow> Inl e
                | Inr t' \<Rightarrow> Inr (m\<lparr>gs_q_freqs_cis := Some t'\<rparr>))
             else Inr m))"

text \<open>Lines 634 to 640, the same shape for the key table, tested against \<open>N // self.sr_ratio**2\<close>.\<close>

definition gsa_k_step ::
  "gsattention \<Rightarrow> int \<Rightarrow> nat \<Rightarrow> nat \<Rightarrow> nat \<Rightarrow> real \<Rightarrow> error + gsattention" where
  "gsa_k_step m rpe_dim N N_reduce W scale =
     (if gs_k_freqs_cis m = None \<and> 0 < rpe_dim then
        (case gsa_k_table m rpe_dim N_reduce W scale of
           Inl e \<Rightarrow> Inl e
         | Inr t \<Rightarrow> Inr (m\<lparr>gs_k_freqs_cis := Some t\<rparr>))
      else
        (case gs_k_freqs_cis m of
           None \<Rightarrow> Inl AttributeError
         | Some t \<Rightarrow>
             if N div (gs_sr_ratio m)\<^sup>2 \<noteq> length t then
               (case gsa_k_table m rpe_dim N_reduce W scale of
                  Inl e \<Rightarrow> Inl e
                | Inr t' \<Rightarrow> Inr (m\<lparr>gs_k_freqs_cis := Some t'\<rparr>))
             else Inr m))"

text \<open>
  Lines 616 to 640 in order: \<open>N_reduce\<close>, \<open>rpe_dim\<close>, \<open>scale\<close> and \<open>theta\<close>, the query
  table, the key table. \<open>N\<close> is \<open>x.shape[1]\<close>; \<open>H\<close>, \<open>W\<close> and \<open>base_size\<close> are the
  arguments of \<open>forward\<close>.
\<close>

definition gsa_cache_step ::
  "gsattention \<Rightarrow> nat \<Rightarrow> nat \<Rightarrow> nat \<Rightarrow> real \<Rightarrow> error + gsattention" where
  "gsa_cache_step m N H W base_size =
     (case gsa_N_reduce H W (gs_sr_ratio m) of
        Inl e \<Rightarrow> Inl e
      | Inr N_reduce \<Rightarrow>
     (case rpe_dim_of (gs_dim m) (gs_num_heads m) (gs_rpe_ratio m) of
        Inl e \<Rightarrow> Inl e
      | Inr rpe_dim \<Rightarrow>
     (case gsa_scale_theta m H base_size of
        Inl e \<Rightarrow> Inl e
      | Inr (scale, theta) \<Rightarrow>
     (case gsa_q_step m rpe_dim N W theta scale of
        Inl e \<Rightarrow> Inl e
      | Inr m1 \<Rightarrow> gsa_k_step m1 rpe_dim N N_reduce W scale))))"

section \<open>Tensors\<close>

text \<open>
  A tensor is its shape and its elements in row-major order, as a contiguous torch tensor is.
  \<open>ravel\<close> is the offset of a multi-index, \<open>all_idx\<close> lists the multi-indices of a shape in
  storage order, \<open>tab\<close> builds the tensor of a shape from a function of the multi-index and
  \<open>tget\<close> reads one element.
\<close>

record 'a tensor =
  shape :: "nat list"
  elems :: "'a list"

fun ravel :: "nat list \<Rightarrow> nat list \<Rightarrow> nat" where
  "ravel (d # s) (i # idx) = i * prod_list s + ravel s idx"
| "ravel _ _ = 0"

fun all_idx :: "nat list \<Rightarrow> nat list list" where
  "all_idx [] = [[]]"
| "all_idx (d # s) = concat (map (\<lambda>i. map ((#) i) (all_idx s)) [0..<d])"

fun valid_idx :: "nat list \<Rightarrow> nat list \<Rightarrow> bool" where
  "valid_idx [] [] = True"
| "valid_idx (d # s) (i # idx) = (i < d \<and> valid_idx s idx)"
| "valid_idx _ _ = False"

definition tab :: "nat list \<Rightarrow> (nat list \<Rightarrow> 'a) \<Rightarrow> 'a tensor" where
  "tab s f = \<lparr>shape = s, elems = map f (all_idx s)\<rparr>"

definition tget :: "'a tensor \<Rightarrow> nat list \<Rightarrow> 'a" where
  "tget t idx = elems t ! ravel (shape t) idx"

definition numel :: "'a tensor \<Rightarrow> nat" where
  "numel t = prod_list (shape t)"

definition ndim :: "'a tensor \<Rightarrow> nat" where
  "ndim t = length (shape t)"

text \<open>
  \<open>reshape\<close> and \<open>view\<close> to an explicit shape keep the elements and need the same number of
  them. Every \<open>view\<close> of the source is taken of a contiguous tensor, where the two agree.
\<close>

definition reshape :: "'a tensor \<Rightarrow> nat list \<Rightarrow> error + 'a tensor" where
  "reshape t s =
     (if prod_list s = numel t then Inr \<lparr>shape = s, elems = elems t\<rparr> else Inl RuntimeError)"

text \<open>
  A shape with one \<open>-1\<close> between the sizes \<open>pre\<close> and \<open>post\<close>: torch infers the missing size
  when the product of the others is positive and divides the number of elements, and raises
  otherwise (also for zero elements into a zero product, which it calls ambiguous).
\<close>

definition reshape_infer :: "'a tensor \<Rightarrow> nat list \<Rightarrow> nat list \<Rightarrow> error + 'a tensor" where
  "reshape_infer t pre post =
     (let newsize = prod_list pre * prod_list post
      in if 0 < newsize \<and> numel t mod newsize = 0
         then Inr \<lparr>shape = pre @ [numel t div newsize] @ post, elems = elems t\<rparr>
         else Inl RuntimeError)"

text \<open>\<open>flatten(d)\<close>: the dimensions from \<open>d\<close> on become one.\<close>

definition flatten_from :: "nat \<Rightarrow> 'a tensor \<Rightarrow> error + 'a tensor" where
  "flatten_from d t =
     (if d < ndim t
      then Inr \<lparr>shape = take d (shape t) @ [prod_list (drop d (shape t))], elems = elems t\<rparr>
      else Inl IndexError)"

fun index_of :: "nat list \<Rightarrow> nat \<Rightarrow> nat" where
  "index_of [] d = 0"
| "index_of (p # ps) d = (if p = d then 0 else Suc (index_of ps d))"

text \<open>
  \<open>permute(*perm)\<close>: dimension \<open>k\<close> of the result is dimension \<open>perm[k]\<close> of the argument.
  \<open>transpose(a, b)\<close> is the permutation that swaps \<open>a\<close> and \<open>b\<close>.
\<close>

definition permute :: "'a tensor \<Rightarrow> nat list \<Rightarrow> 'a tensor" where
  "permute t perm =
     tab (map (\<lambda>p. shape t ! p) perm)
         (\<lambda>idx. tget t (map (\<lambda>d. idx ! index_of perm d) [0..<length perm]))"

definition transpose_dims :: "nat \<Rightarrow> nat \<Rightarrow> 'a tensor \<Rightarrow> 'a tensor" where
  "transpose_dims a b t = permute t (([0..<ndim t])[a := b, b := a])"

text \<open>\<open>t[i]\<close> on the first dimension.\<close>

definition select0 :: "nat \<Rightarrow> 'a tensor \<Rightarrow> 'a tensor" where
  "select0 i t = tab (tl (shape t)) (\<lambda>idx. tget t (i # idx))"

text \<open>\<open>len\<close> consecutive indices of dimension \<open>d\<close>, from \<open>start\<close>.\<close>

definition narrow :: "nat \<Rightarrow> nat \<Rightarrow> nat \<Rightarrow> 'a tensor \<Rightarrow> 'a tensor" where
  "narrow d start len t =
     tab ((shape t)[d := len]) (\<lambda>idx. tget t (idx[d := idx ! d + start]))"

text \<open>
  Python slice bounds on a dimension of size \<open>n\<close>: a negative bound counts from the end, and
  the result is clamped to \<open>[0, n]\<close>.
\<close>

definition py_bound :: "nat \<Rightarrow> int \<Rightarrow> nat" where
  "py_bound n r = (if r < 0 then nat (int n + r) else min (nat r) n)"

text \<open>\<open>t[..., :r]\<close> and \<open>t[..., r:]\<close>.\<close>

definition slice_to :: "int \<Rightarrow> 'a tensor \<Rightarrow> 'a tensor" where
  "slice_to r t = narrow (ndim t - 1) 0 (py_bound (last (shape t)) r) t"

definition slice_from :: "int \<Rightarrow> 'a tensor \<Rightarrow> 'a tensor" where
  "slice_from r t =
     narrow (ndim t - 1) (py_bound (last (shape t)) r)
       (last (shape t) - py_bound (last (shape t)) r) t"

text \<open>
  \<open>torch.cat((a, b), dim=-1)\<close>: the other dimensions must agree. (The exemption torch gives
  to a one-dimensional empty tensor does not arise: both arguments have the rank of the input.)
\<close>

definition cat_last :: "'a tensor \<Rightarrow> 'a tensor \<Rightarrow> error + 'a tensor" where
  "cat_last a b =
     (if shape a \<noteq> [] \<and> shape b \<noteq> [] \<and> butlast (shape a) = butlast (shape b)
      then Inr (tab (butlast (shape a) @ [last (shape a) + last (shape b)])
                  (\<lambda>idx. if last idx < last (shape a) then tget a idx
                         else tget b (butlast idx @ [last idx - last (shape a)])))
      else Inl RuntimeError)"

text \<open>
  Broadcasting: shapes are aligned at the right, a missing dimension counts as 1, and two
  sizes are compatible when they are equal or one of them is 1.
\<close>

fun bdims :: "nat list \<Rightarrow> nat list \<Rightarrow> nat list option" where
  "bdims [] [] = Some []"
| "bdims (a # as) (b # bs) =
     (case bdims as bs of
        None \<Rightarrow> None
      | Some s \<Rightarrow> if a = b then Some (a # s) else if a = 1 then Some (b # s)
                  else if b = 1 then Some (a # s) else None)"
| "bdims _ _ = None"

definition bshape :: "nat list \<Rightarrow> nat list \<Rightarrow> nat list option" where
  "bshape s1 s2 =
     (let n = max (length s1) (length s2)
      in bdims (replicate (n - length s1) 1 @ s1) (replicate (n - length s2) 1 @ s2))"

definition bidx :: "nat list \<Rightarrow> nat list \<Rightarrow> nat list" where
  "bidx s idx = map2 (\<lambda>d i. if d = 1 then 0 else i) s (drop (length idx - length s) idx)"

definition broadcast2 :: "('a \<Rightarrow> 'b \<Rightarrow> 'c) \<Rightarrow> 'a tensor \<Rightarrow> 'b tensor \<Rightarrow> error + 'c tensor" where
  "broadcast2 f a b =
     (case bshape (shape a) (shape b) of
        None \<Rightarrow> Inl RuntimeError
      | Some s \<Rightarrow> Inr (tab s (\<lambda>idx. f (tget a (bidx (shape a) idx)) (tget b (bidx (shape b) idx)))))"

text \<open>
  \<open>a @ b\<close> on tensors of rank at least 2: a matrix product over the last two dimensions,
  the leading ones broadcast.
\<close>

definition matmul :: "real tensor \<Rightarrow> real tensor \<Rightarrow> error + real tensor" where
  "matmul a b =
     (let ra = ndim a; rb = ndim b
      in if ra < 2 \<or> rb < 2 then Inl RuntimeError
         else
           let ba = take (ra - 2) (shape a); bb = take (rb - 2) (shape b);
               n = shape a ! (ra - 2); k = shape a ! (ra - 1);
               k' = shape b ! (rb - 2); m = shape b ! (rb - 1)
           in if k \<noteq> k' then Inl RuntimeError
              else
                (case bshape ba bb of
                   None \<Rightarrow> Inl RuntimeError
                 | Some batch \<Rightarrow>
                     Inr (tab (batch @ [n, m])
                            (\<lambda>idx. let r = length idx; bi = take (r - 2) idx;
                                       i = idx ! (r - 2); j = idx ! (r - 1)
                                   in (\<Sum>l \<leftarrow> [0..<k]. tget a (bidx ba bi @ [i, l])
                                                        * tget b (bidx bb bi @ [l, j]))))))"

definition tmap :: "('a \<Rightarrow> 'b) \<Rightarrow> 'a tensor \<Rightarrow> 'b tensor" where
  "tmap f t = \<lparr>shape = shape t, elems = map f (elems t)\<rparr>"

text \<open>
  \<open>softmax(dim=-1)\<close> of scores that may hold \<open>-inf\<close>, whose exponential is 0. (A row of
  nothing but \<open>-inf\<close> is NaN in torch and 0 here; the causal masks leave every row a zero.)
\<close>

fun xexp :: "xreal \<Rightarrow> real" where
  "xexp NegInf = 0"
| "xexp (Fin r) = exp r"

fun xadd :: "xreal \<Rightarrow> xreal \<Rightarrow> xreal" where
  "xadd (Fin a) (Fin b) = Fin (a + b)"
| "xadd _ _ = NegInf"

definition softmax_last :: "xreal tensor \<Rightarrow> real tensor" where
  "softmax_last t =
     tab (shape t)
       (\<lambda>idx. xexp (tget t idx)
              / (\<Sum>j \<leftarrow> [0..<last (shape t)]. xexp (tget t (butlast idx @ [j]))))"

text \<open>
  \<open>nn.Linear\<close>: a weight of shape \<open>(out_features, in_features)\<close> and an optional bias, applied
  to the last dimension, which must be \<open>in_features\<close>.
\<close>

record linear =
  lin_weight :: "real tensor"
  lin_bias :: "real tensor option"

definition linear_apply :: "linear \<Rightarrow> real tensor \<Rightarrow> error + real tensor" where
  "linear_apply l x =
     (let out_features = shape (lin_weight l) ! 0; in_features = shape (lin_weight l) ! 1
      in if shape x \<noteq> [] \<and> last (shape x) = in_features
         then Inr (tab (butlast (shape x) @ [out_features])
                     (\<lambda>idx. (\<Sum>k \<leftarrow> [0..<in_features].
                                tget x (butlast idx @ [k]) * tget (lin_weight l) [last idx, k])
                            + (case lin_bias l of None \<Rightarrow> 0 | Some b \<Rightarrow> tget b [last idx])))
         else Inl RuntimeError)"

text \<open>
  \<open>torch.view_as_complex\<close> of a tensor whose last dimension is 2, and \<open>torch.view_as_real\<close>.
\<close>

definition view_as_complex :: "real tensor \<Rightarrow> error + complex tensor" where
  "view_as_complex t =
     (if shape t \<noteq> [] \<and> last (shape t) = 2
      then Inr (tab (butlast (shape t)) (\<lambda>idx. Complex (tget t (idx @ [0])) (tget t (idx @ [1]))))
      else Inl RuntimeError)"

definition view_as_real :: "complex tensor \<Rightarrow> real tensor" where
  "view_as_real t =
     tab (shape t @ [2])
       (\<lambda>idx. if last idx = 0 then Re (tget t (butlast idx)) else Im (tget t (butlast idx)))"

section \<open>Rotary application\<close>

text \<open>
  \<open>reshape_for_broadcast(freqs_cis, x)\<close>: the assertion on the rank, then one of three target
  shapes built from \<open>x.shape\<close>, then \<open>freqs_cis.view(*shape)\<close>. When \<open>freqs_cis\<close> and \<open>x\<close>
  agree in the last dimension and the rank is neither 4 nor 3 no branch assigns \<open>shape\<close>.
\<close>

definition reshape_for_broadcast :: "complex tensor \<Rightarrow> complex tensor \<Rightarrow> error + complex tensor" where
  "reshape_for_broadcast freqs_cis x =
     (let nd = ndim x
      in if \<not> 1 < nd then Inl AssertionError
         else if shape freqs_cis = [] then Inl IndexError
         else if last (shape freqs_cis) = last (shape x) \<and> nd = 4 then
           reshape freqs_cis (map (\<lambda>(i, d). if i = 2 \<or> i = 0 then 1 else d) (enumerate 0 (shape x)))
         else if last (shape freqs_cis) \<noteq> last (shape x) then
           reshape freqs_cis (map (\<lambda>(i, d). if i \<noteq> 0 then d else 1) (enumerate 0 (shape x)))
         else if last (shape freqs_cis) = last (shape x) \<and> nd = 3 then
           reshape freqs_cis (map (\<lambda>(i, d). if i = 0 then 1 else d) (enumerate 0 (shape x)))
         else Inl UnboundLocalError)"

text \<open>
  \<open>torch.view_as_complex(xq.float().reshape(*xq.shape[:-1], -1, 2))\<close>; \<open>.float()\<close> and
  \<open>.type_as\<close> change nothing in exact arithmetic.
\<close>

definition as_complex_pairs :: "real tensor \<Rightarrow> error + complex tensor" where
  "as_complex_pairs xq = andthen (reshape_infer xq (butlast (shape xq)) [2]) view_as_complex"

text \<open>\<open>torch.view_as_real(xq_ * freqs_cis).flatten(3)\<close>, with \<open>xqc\<close> for \<open>xq_\<close>.\<close>

definition rotate_flatten :: "nat \<Rightarrow> complex tensor \<Rightarrow> complex tensor \<Rightarrow> error + real tensor" where
  "rotate_flatten d xqc freqs_cis =
     andthen (broadcast2 (*) xqc freqs_cis) (\<lambda>prod. flatten_from d (view_as_real prod))"

definition apply_rotary_emb ::
  "real tensor \<Rightarrow> real tensor \<Rightarrow> complex tensor \<Rightarrow> error + real tensor \<times> real tensor" where
  "apply_rotary_emb xq xk freqs_cis =
     andthen (as_complex_pairs xq) (\<lambda>xqc.
     andthen (as_complex_pairs xk) (\<lambda>xkc.
     andthen (reshape_for_broadcast freqs_cis xqc) (\<lambda>freqs_cis.
     andthen (rotate_flatten 3 xqc freqs_cis) (\<lambda>xq_out.
     andthen (rotate_flatten 3 xkc freqs_cis) (\<lambda>xk_out.
     Inr (xq_out, xk_out))))))"

text \<open>
  The statements both \<open>RAttention.forward\<close> and \<open>GQA.forward\<close> use to rotate a prefix:
  \<^verbatim>\<open>
  q_rot, k_rot = apply_rotary_emb(q[..., :rpe_dim], k[..., :rpe_dim], freqs_cis=freqs_cis)
  q = torch.cat((q_rot, q[..., rpe_dim:]), dim=-1)
  k = torch.cat((k_rot, k[..., rpe_dim:]), dim=-1)
  \<close>
\<close>

definition rope_prefix ::
  "int \<Rightarrow> real tensor \<Rightarrow> real tensor \<Rightarrow> complex tensor \<Rightarrow> error + real tensor \<times> real tensor" where
  "rope_prefix rpe_dim q k freqs_cis =
     andthen (apply_rotary_emb (slice_to rpe_dim q) (slice_to rpe_dim k) freqs_cis) (\<lambda>(q_rot, k_rot).
     andthen (cat_last q_rot (slice_from rpe_dim q)) (\<lambda>q'.
     andthen (cat_last k_rot (slice_from rpe_dim k)) (\<lambda>k'.
     Inr (q', k'))))"

section \<open>RAttention\<close>

text \<open>
  The attributes \<open>forward\<close> reads. \<open>qkv\<close>, \<open>proj\<close>, \<open>num_heads\<close> and \<open>scale\<close> are set by the
  constructor of timm's \<open>Attention\<close>, which \<open>RAttention\<close> extends; the two dropout layers are the
  identity (evaluation mode, and the default rate 0). \<open>casual_mask\<close> is \<open>None\<close> while the
  attribute does not exist.
\<close>

record rattention =
  ra_num_heads :: nat
  ra_scale :: real
  ra_qkv :: linear
  ra_proj :: linear
  ra_enable_rpe :: bool
  ra_rpe_ratio :: real
  ra_casual_attn_1d :: bool
  ra_casual_attn_2d :: bool
  ra_token_num :: "nat option"
  ra_casual_mask :: "xreal tensor option"

text \<open>The square mask, given by its rows, as a tensor.\<close>

definition mask_tensor :: "xreal list list \<Rightarrow> xreal tensor" where
  "mask_tensor rows = \<lparr>shape = [length rows, length rows], elems = concat rows\<rparr>"

text \<open>
  \<open>RAttention.__init__\<close>. The base constructor computes \<open>head_dim = dim // num_heads\<close> and
  \<open>self.scale = qk_scale or head_dim ** -0.5\<close> and creates the two linear layers, whose
  initial parameters are arguments here.
\<close>

definition rattention_init ::
  "nat \<Rightarrow> nat \<Rightarrow> linear \<Rightarrow> linear \<Rightarrow> real option \<Rightarrow> bool \<Rightarrow> real \<Rightarrow> nat option \<Rightarrow> bool \<Rightarrow> bool \<Rightarrow> bool
     \<Rightarrow> error + rattention" where
  "rattention_init dm num_heads qkv proj qk_scale enable_rpe rpe_ratio token_num
       casual_attn_1d casual_attn_2d use_cls_token =
     (if num_heads = 0 then Inl ZeroDivisionError
      else
        let head_dim = dm div num_heads;
            qk = (case qk_scale of None \<Rightarrow> 0 | Some s \<Rightarrow> s)
        in if qk = 0 \<and> head_dim = 0 then Inl ZeroDivisionError
           else
             andthen (rattention_init_mask casual_attn_1d casual_attn_2d token_num use_cls_token)
               (\<lambda>mask.
                  Inr \<lparr>ra_num_heads = num_heads,
                       ra_scale = (if qk \<noteq> 0 then qk else real head_dim powr (- 1 / 2)),
                       ra_qkv = qkv, ra_proj = proj,
                       ra_enable_rpe = enable_rpe, ra_rpe_ratio = rpe_ratio,
                       ra_casual_attn_1d = casual_attn_1d, ra_casual_attn_2d = casual_attn_2d,
                       ra_token_num = token_num,
                       ra_casual_mask = map_option mask_tensor mask\<rparr>))"

text \<open>
  \<open>RAttention.forward\<close> with \<open>enable_rpe\<close>, in three parts. First the projection and the
  rotation, up to the three transposes:
  \<^verbatim>\<open>
  qkv = self.qkv(x).reshape(B, N, 3, self.num_heads, C // self.num_heads).permute(2, 0, 1, 3, 4)
  q, k, v = qkv[0], qkv[1], qkv[2]
  rpe_dim = int(self.rpe_ratio * C // self.num_heads)
  if rpe_dim > 0: ...
  \<close>
  \<open>self.rpe_ratio * C // self.num_heads\<close> is the float floor division of the product.
\<close>

definition rattention_rpe_dim :: "rattention \<Rightarrow> nat \<Rightarrow> int" where
  "rattention_rpe_dim m C = py_int (real_of_int \<lfloor>ra_rpe_ratio m * real C / real (ra_num_heads m)\<rfloor>)"

definition rattention_qkv ::
  "rattention \<Rightarrow> real tensor \<Rightarrow> complex tensor \<Rightarrow> error + real tensor \<times> real tensor \<times> real tensor" where
  "rattention_qkv m x freqs_cis =
     (case shape x of
        [B, N, C] \<Rightarrow>
          andthen (linear_apply (ra_qkv m) x) (\<lambda>qkv.
          if ra_num_heads m = 0 then Inl ZeroDivisionError
          else
          andthen (reshape qkv [B, N, 3, ra_num_heads m, C div ra_num_heads m]) (\<lambda>qkv.
          let qkv = permute qkv [2, 0, 1, 3, 4];
              q = select0 0 qkv; k = select0 1 qkv; v = select0 2 qkv;
              rpe_dim = rattention_rpe_dim m C
          in andthen (if 0 < rpe_dim then rope_prefix rpe_dim q k freqs_cis else Inr (q, k))
               (\<lambda>(q, k). Inr (transpose_dims 1 2 q, transpose_dims 1 2 k, transpose_dims 1 2 v))))
      | _ \<Rightarrow> Inl ValueError)"

text \<open>
  Then the scores and the mask:
  \<^verbatim>\<open>
  attn = (q @ k.transpose(-2, -1)) * self.scale
  if self.casual_attn_2d or self.casual_attn_1d:
      attn = attn + self.casual_mask.unsqueeze(0).unsqueeze(0).to(x.device)
  \<close>
  Reading \<open>self.casual_mask\<close> raises when the attribute was never assigned.
\<close>

definition rattention_scores :: "rattention \<Rightarrow> real tensor \<Rightarrow> real tensor \<Rightarrow> error + real tensor" where
  "rattention_scores m q k =
     andthen (matmul q (transpose_dims (ndim k - 2) (ndim k - 1) k))
       (\<lambda>attn. Inr (tmap (\<lambda>a. a * ra_scale m) attn))"

definition rattention_add_mask :: "rattention \<Rightarrow> real tensor \<Rightarrow> error + xreal tensor" where
  "rattention_add_mask m attn =
     (if ra_casual_attn_2d m \<or> ra_casual_attn_1d m then
        (case ra_casual_mask m of
           None \<Rightarrow> Inl AttributeError
         | Some casual_mask \<Rightarrow>
             broadcast2 xadd (tmap Fin attn)
               \<lparr>shape = [1, 1] @ shape casual_mask, elems = elems casual_mask\<rparr>)
      else Inr (tmap Fin attn))"

text \<open>
  Last the weighted sum and the output projection:
  \<^verbatim>\<open>
  attn = attn.softmax(dim=-1)
  x = (attn @ v).transpose(1, 2).reshape(B, N, C)
  x = self.proj(x)
  \<close>
\<close>

definition rattention_output ::
  "rattention \<Rightarrow> nat list \<Rightarrow> xreal tensor \<Rightarrow> real tensor \<Rightarrow> error + real tensor" where
  "rattention_output m xshape attn v =
     andthen (matmul (softmax_last attn) v) (\<lambda>x.
     andthen (reshape (transpose_dims 1 2 x) xshape) (\<lambda>x.
     linear_apply (ra_proj m) x))"

text \<open>
  The whole of \<open>forward\<close>. Without \<open>enable_rpe\<close> it is the \<open>forward\<close> of timm's \<open>Attention\<close>,
  an argument here. \<open>forward\<close> assigns no attribute, so the module is the same after the call;
  the result pairs it with the output to say so.
\<close>

definition rattention_forward ::
  "(real tensor \<Rightarrow> error + real tensor) \<Rightarrow> rattention \<Rightarrow> real tensor \<Rightarrow> complex tensor
     \<Rightarrow> error + rattention \<times> real tensor" where
  "rattention_forward super_forward m x freqs_cis =
     (if ra_enable_rpe m then
        andthen (rattention_qkv m x freqs_cis) (\<lambda>(q, k, v).
        andthen (rattention_scores m q k) (\<lambda>attn.
        andthen (rattention_add_mask m attn) (\<lambda>attn.
        andthen (rattention_output m (shape x) attn v) (\<lambda>y. Inr (m, y)))))
      else andthen (super_forward x) (\<lambda>y. Inr (m, y)))"

section \<open>Scaled dot-product attention of the libraries\<close>

text \<open>
  \<open>GQA.scaled_dot_product_attention\<close> calls \<open>torch.nn.functional.scaled_dot_product_attention\<close>
  and \<open>flash_attn.flash_attn_func\<close>. Neither is code of the repository; both are modelled from
  their documentation, in exact arithmetic and with dropout 0 as the calls pass it.

  The core both compute: \<open>softmax(q @ k.transpose(-2, -1) * scale + bias) @ v\<close>.
\<close>

definition attention_core ::
  "real tensor \<Rightarrow> real tensor \<Rightarrow> real tensor \<Rightarrow> xreal tensor \<Rightarrow> real \<Rightarrow> error + real tensor" where
  "attention_core q k v attn_bias scale =
     andthen (matmul q (transpose_dims (ndim k - 2) (ndim k - 1) k)) (\<lambda>attn_weight.
     andthen (broadcast2 xadd (tmap (\<lambda>a. Fin (a * scale)) attn_weight) attn_bias) (\<lambda>attn_weight.
     matmul (softmax_last attn_weight) v))"

text \<open>
  The bias of the torch function for queries of length \<open>L\<close> and keys of length \<open>S\<close>: zeros,
  with \<open>-inf\<close> outside \<open>torch.ones(L, S).tril(diagonal=0)\<close> when \<open>is_causal\<close>.
\<close>

definition causal_bias :: "bool \<Rightarrow> nat \<Rightarrow> nat \<Rightarrow> xreal tensor" where
  "causal_bias is_causal L S =
     tab [L, S] (\<lambda>idx. if is_causal \<and> idx ! 0 < idx ! 1 then NegInf else Fin 0)"

text \<open>
  \<open>F.scaled_dot_product_attention(q, k, v, attn_mask=mask, dropout_p=0.0, scale=scale,
  is_causal=...)\<close> on tensors of shape \<open>(B, nh, T, hs)\<close>. A float \<open>attn_mask\<close> is added to the
  bias; torch rejects a mask together with \<open>is_causal\<close>.
\<close>

definition F_scaled_dot_product_attention ::
  "real tensor \<Rightarrow> real tensor \<Rightarrow> real tensor \<Rightarrow> xreal tensor option \<Rightarrow> real \<Rightarrow> bool
     \<Rightarrow> error + real tensor" where
  "F_scaled_dot_product_attention q k v attn_mask scale is_causal =
     (if ndim q < 2 \<or> ndim k < 2 then Inl RuntimeError
      else
        let L = shape q ! (ndim q - 2); S = shape k ! (ndim k - 2)
        in (case attn_mask of
              None \<Rightarrow> attention_core q k v (causal_bias is_causal L S) scale
            | Some float_mask \<Rightarrow>
                if is_causal then Inl RuntimeError
                else andthen (broadcast2 xadd (causal_bias False L S) float_mask)
                       (\<lambda>attn_bias. attention_core q k v attn_bias scale)))"

text \<open>
  \<open>flash_attn_func(q, k, v, dropout_p=0.0, softmax_scale=scale, causal=...)\<close> takes and
  returns tensors of shape \<open>(B, T, nh, hs)\<close>. Keys and values may have fewer heads than the
  queries, a divisor of their number, each shared by a run of query heads. With \<open>causal\<close> the
  mask is aligned to the bottom right corner of the score matrix.
\<close>

definition flash_attn_func ::
  "real tensor \<Rightarrow> real tensor \<Rightarrow> real tensor \<Rightarrow> real \<Rightarrow> bool \<Rightarrow> error + real tensor" where
  "flash_attn_func q k v softmax_scale causal =
     (case (shape q, shape k) of
        ([B, L, nh, hs], [B', S, nk, hs']) \<Rightarrow>
          if B \<noteq> B' \<or> hs \<noteq> hs' \<or> shape v \<noteq> shape k \<or> nk = 0 \<or> nh mod nk \<noteq> 0
          then Inl RuntimeError
          else
            let share = (\<lambda>t. tab [B, nh, S, hs]
                               (\<lambda>idx. tget t [idx ! 0, idx ! 2, idx ! 1 div (nh div nk), idx ! 3]));
                attn_bias = tab [L, S] (\<lambda>idx. if causal \<and> idx ! 0 + S < idx ! 1 + L
                                                 then NegInf else Fin 0)
            in andthen (attention_core (transpose_dims 1 2 q) (share k) (share v) attn_bias
                          softmax_scale)
                 (\<lambda>out. Inr (transpose_dims 1 2 out))
      | _ \<Rightarrow> Inl RuntimeError)"

section \<open>GQA\<close>

record gqa =
  gq_num_heads :: nat
  gq_query_groups :: nat
  gq_head_dim :: nat
  gq_rpe_ratio :: real
  gq_scale :: real
  gq_qkv :: linear
  gq_proj :: linear

text \<open>
  \<open>GQA.__init__\<close>; the initial parameters of \<open>nn.Linear(dim, (num_heads + 2 * query_groups) *
  head_dim)\<close> and of \<open>nn.Linear(dim, dim)\<close> are arguments.
\<close>

definition gqa_init ::
  "nat \<Rightarrow> nat \<Rightarrow> linear \<Rightarrow> linear \<Rightarrow> real option \<Rightarrow> real \<Rightarrow> nat \<Rightarrow> error + gqa" where
  "gqa_init dm num_heads qkv proj qk_scale rpe_ratio query_groups =
     (if num_heads = 0 then Inl ZeroDivisionError
      else
        let head_dim = dm div num_heads;
            qk = (case qk_scale of None \<Rightarrow> 0 | Some s \<Rightarrow> s)
        in if qk = 0 \<and> head_dim = 0 then Inl ZeroDivisionError
           else Inr \<lparr>gq_num_heads = num_heads, gq_query_groups = query_groups,
                     gq_head_dim = head_dim, gq_rpe_ratio = rpe_ratio,
                     gq_scale = (if qk \<noteq> 0 then qk else real head_dim powr (- 1 / 2)),
                     gq_qkv = qkv, gq_proj = proj\<rparr>)"

text \<open>
  \<open>t.expand(*sizes)\<close>: a dimension of size 1 is repeated to the size asked, any other must
  already have it.
\<close>

definition expand :: "'a tensor \<Rightarrow> nat list \<Rightarrow> error + 'a tensor" where
  "expand t sizes =
     (if length sizes = ndim t \<and> (\<forall>(d, s) \<in> set (zip (shape t) sizes). d = s \<or> d = 1)
      then Inr (tab sizes (\<lambda>idx. tget t (bidx (shape t) idx)))
      else Inl RuntimeError)"

text \<open>
  The assembly of the heads in \<open>GQA.forward\<close>, from the projected \<open>qkv\<close> of shape
  \<open>(B, T, (num_heads + 2 * query_groups) * head_dim)\<close>:
  \<^verbatim>\<open>
  q_per_kv = self.num_heads // self.query_groups
  total_qkv = q_per_kv + 2
  qkv = qkv.view(B, T, self.query_groups, total_qkv, self.head_dim)
  qkv = qkv.permute(0, 2, 3, 1, 4)
  q, k, v = qkv.split((q_per_kv, 1, 1), dim=2)
  if self.query_groups != 1:
      k = k.expand(B, self.query_groups, q_per_kv, T, self.head_dim)
      v = v.expand(B, self.query_groups, q_per_kv, T, self.head_dim)
  q = q.reshape(B, -1, T, self.head_dim)
  k = k.reshape(B, -1, T, self.head_dim)
  v = v.reshape(B, -1, T, self.head_dim)
  \<close>
\<close>

definition gqa_heads ::
  "gqa \<Rightarrow> nat \<Rightarrow> nat \<Rightarrow> real tensor \<Rightarrow> error + real tensor \<times> real tensor \<times> real tensor" where
  "gqa_heads m B T qkv =
     (if gq_query_groups m = 0 then Inl ZeroDivisionError
      else
        let q_per_kv = gq_num_heads m div gq_query_groups m;
            total_qkv = q_per_kv + 2
        in andthen (reshape qkv [B, T, gq_query_groups m, total_qkv, gq_head_dim m]) (\<lambda>qkv.
           let qkv = permute qkv [0, 2, 3, 1, 4];
               q = narrow 2 0 q_per_kv qkv;
               k = narrow 2 q_per_kv 1 qkv;
               v = narrow 2 (q_per_kv + 1) 1 qkv
           in andthen (if gq_query_groups m \<noteq> 1
                       then expand k [B, gq_query_groups m, q_per_kv, T, gq_head_dim m]
                       else Inr k) (\<lambda>k.
              andthen (if gq_query_groups m \<noteq> 1
                       then expand v [B, gq_query_groups m, q_per_kv, T, gq_head_dim m]
                       else Inr v) (\<lambda>v.
              andthen (reshape_infer q [B] [T, gq_head_dim m]) (\<lambda>q.
              andthen (reshape_infer k [B] [T, gq_head_dim m]) (\<lambda>k.
              andthen (reshape_infer v [B] [T, gq_head_dim m]) (\<lambda>v.
              Inr (q, k, v))))))))"

text \<open>
  \<open>GQA.scaled_dot_product_attention\<close>. \<open>flash\<close> is the module-level
  \<open>FlashAttention2Available\<close>, \<open>cuda\<close> is \<open>q.device.type == "cuda"\<close> and \<open>half\<close> is
  \<open>q.dtype in (torch.float16, torch.bfloat16)\<close>; the parameter \<open>mask\<close> is written
  \<open>attn_mask\<close>. \<open>self.head_dim ** -0.5\<close> raises for a zero \<open>head_dim\<close>.
\<close>

definition gqa_scaled_dot_product_attention ::
  "gqa \<Rightarrow> bool \<Rightarrow> bool \<Rightarrow> bool \<Rightarrow> real tensor \<Rightarrow> real tensor \<Rightarrow> real tensor \<Rightarrow> xreal tensor option
     \<Rightarrow> error + real tensor" where
  "gqa_scaled_dot_product_attention m flash cuda half q k v attn_mask =
     (if gq_head_dim m = 0 then Inl ZeroDivisionError
      else
        let scale = real (gq_head_dim m) powr (- 1 / 2)
        in if flash \<and> attn_mask = None \<and> cuda \<and> half then
             flash_attn_func (transpose_dims 1 2 q) (transpose_dims 1 2 k) (transpose_dims 1 2 v)
               scale False
           else
             andthen (F_scaled_dot_product_attention q k v attn_mask scale (attn_mask = None))
               (\<lambda>y. Inr (transpose_dims 1 2 y)))"

text \<open>
  \<open>GQA.forward\<close>. The rotation has no guard on \<open>rope_dim\<close> here, and
  \<open>scaled_dot_product_attention\<close> is called without a mask.
\<close>

definition gqa_rope_dim :: "gqa \<Rightarrow> int" where
  "gqa_rope_dim m = py_int (real (gq_head_dim m) * gq_rpe_ratio m)"

definition gqa_forward ::
  "gqa \<Rightarrow> bool \<Rightarrow> bool \<Rightarrow> bool \<Rightarrow> real tensor \<Rightarrow> complex tensor \<Rightarrow> error + real tensor" where
  "gqa_forward m flash cuda half x freqs_cis =
     (case shape x of
        [B, T, C] \<Rightarrow>
          andthen (linear_apply (gq_qkv m) x) (\<lambda>qkv.
          andthen (gqa_heads m B T qkv) (\<lambda>(q, k, v).
          andthen (rope_prefix (gqa_rope_dim m) q k freqs_cis) (\<lambda>(q, k).
          andthen (gqa_scaled_dot_product_attention m flash cuda half q k v None) (\<lambda>y.
          andthen (reshape y [B, T, C]) (\<lambda>y.
          linear_apply (gq_proj m) y)))))
      | _ \<Rightarrow> Inl ValueError)"

section \<open>A small module and input\<close>

text \<open>
  One head of width 2 over two tokens: the \<open>qkv\<close> weight of shape \<open>(6, 2)\<close>, the identity
  as \<open>proj\<close>, an input of shape \<open>(1, 2, 2)\<close> and a frequency table of shape \<open>(2, 1)\<close> that
  leaves token 0 alone and turns token 1 by a quarter.
\<close>

definition ex_qkv :: linear where
  "ex_qkv = \<lparr>lin_weight = \<lparr>shape = [6, 2], elems = [1, 0, 0, 1, 1, 1, 0, 2, 3, 0, 0, 3]\<rparr>,
              lin_bias = None\<rparr>"

definition ex_proj :: linear where
  "ex_proj = \<lparr>lin_weight = \<lparr>shape = [2, 2], elems = [1, 0, 0, 1]\<rparr>, lin_bias = None\<rparr>"

definition ex_x :: "real tensor" where
  "ex_x = \<lparr>shape = [1, 2, 2], elems = [1, 2, 3, 4]\<rparr>"

definition ex_freqs :: "complex tensor" where
  "ex_freqs = \<lparr>shape = [2, 1], elems = [1, \<i>]\<rparr>"

text \<open>
  A \<open>GSAttention\<close> and an \<open>MHSAttention\<close> as constructed with \<open>dim = 4\<close>, one head and the
  defaults otherwise (\<open>sr_ratio = 1\<close>, \<open>rpe_ratio = 1.0\<close>), so that \<open>rpe_dim = 4\<close> and the
  tables have one frequency, 1, on each axis.
\<close>

definition gsa_ex :: gsattention where
  "gsa_ex = \<lparr>gs_dim = 4, gs_num_heads = 1, gs_sr_ratio = 1, gs_rpe_ratio = 1,
             gs_use_cls_token = False, gs_auto_scale = False, gs_use_ntk = None,
             gs_q_freqs_cis = None, gs_k_freqs_cis = None\<rparr>"

definition mhsa_ex :: mhsattention where
  "mhsa_ex = \<lparr>mh_dim = 4, mh_num_heads = 1, mh_rpe_ratio = 1, mh_use_cls_token = False,
              mh_freqs_cis = None\<rparr>"

text \<open>
  A \<open>GQA\<close> with one head of width 1, and queries, keys and values of shape \<open>(1, 1, 2, 1)\<close>:
  one head over two tokens. The queries are zero, so every score is zero; the values are 1
  and 3.
\<close>

definition gqa_ex :: gqa where
  "gqa_ex = \<lparr>gq_num_heads = 1, gq_query_groups = 1, gq_head_dim = 1, gq_rpe_ratio = 1,
             gq_scale = 1,
             gq_qkv = \<lparr>lin_weight = \<lparr>shape = [3, 1], elems = [1, 1, 1]\<rparr>, lin_bias = None\<rparr>,
             gq_proj = \<lparr>lin_weight = \<lparr>shape = [1, 1], elems = [1]\<rparr>, lin_bias = None\<rparr>\<rparr>"

definition sd_q :: "real tensor" where
  "sd_q = \<lparr>shape = [1, 1, 2, 1], elems = [0, 0]\<rparr>"

definition sd_k :: "real tensor" where
  "sd_k = \<lparr>shape = [1, 1, 2, 1], elems = [1, 1]\<rparr>"

definition sd_v :: "real tensor" where
  "sd_v = \<lparr>shape = [1, 1, 2, 1], elems = [1, 3]\<rparr>"

text \<open>
  Two \<open>GQA\<close> modules with \<open>query_groups = 1\<close>: two heads of width 1, and one head of width
  2 with the weights of the small module above; and the \<open>RAttention\<close> of one head with the
  same weights and no causal mask.
\<close>

definition gqa_two_heads :: gqa where
  "gqa_two_heads =
     \<lparr>gq_num_heads = 2, gq_query_groups = 1, gq_head_dim = 1, gq_rpe_ratio = 1, gq_scale = 1,
      gq_qkv = \<lparr>lin_weight = \<lparr>shape = [4, 2], elems = [1, 0, 0, 1, 1, 1, 1, 2]\<rparr>, lin_bias = None\<rparr>,
      gq_proj = ex_proj\<rparr>"

definition gqa_one_head :: gqa where
  "gqa_one_head =
     \<lparr>gq_num_heads = 1, gq_query_groups = 1, gq_head_dim = 2, gq_rpe_ratio = 1, gq_scale = 1,
      gq_qkv = ex_qkv, gq_proj = ex_proj\<rparr>"

definition ra_one_head :: rattention where
  "ra_one_head =
     \<lparr>ra_num_heads = 1, ra_scale = 1, ra_qkv = ex_qkv, ra_proj = ex_proj,
      ra_enable_rpe = True, ra_rpe_ratio = 1, ra_casual_attn_1d = False,
      ra_casual_attn_2d = False, ra_token_num = None, ra_casual_mask = None\<rparr>"



text \<open>
  The \<open>RAttention\<close> of one head constructed with \<open>casual_attn_1d=True\<close>,
  \<open>casual_attn_2d=True\<close>, \<open>use_cls_token=False\<close> and \<open>token_num=4\<close>, whose mask is the one of
  the 2 by 2 grid; an input of four tokens and a frequency table of four rows.
\<close>

definition ra_two_flags :: rattention where
  "ra_two_flags =
     \<lparr>ra_num_heads = 1, ra_scale = 1, ra_qkv = ex_qkv, ra_proj = ex_proj,
      ra_enable_rpe = True, ra_rpe_ratio = 1, ra_casual_attn_1d = True,
      ra_casual_attn_2d = True, ra_token_num = Some 4,
      ra_casual_mask = Some \<lparr>shape = [4, 4], elems =
         [Fin 0, NegInf, NegInf, NegInf, Fin 0, Fin 0, NegInf, NegInf,
          Fin 0, NegInf, Fin 0, NegInf, Fin 0, Fin 0, Fin 0, Fin 0]\<rparr>\<rparr>"

definition ex_x4 :: "real tensor" where
  "ex_x4 = \<lparr>shape = [1, 4, 2], elems = [1, 2, 3, 4, 0, 1, 1, 0]\<rparr>"

definition ex_freqs4 :: "complex tensor" where
  "ex_freqs4 = \<lparr>shape = [4, 1], elems = [1, \<i>, 1, \<i>]\<rparr>"

text \<open>
  Two \<open>GQA\<close> modules with two query groups: two heads of width 1 (one query head a group),
  and four heads of width 1 (two query heads a group).
\<close>

definition gqa_two_groups :: gqa where
  "gqa_two_groups =
     \<lparr>gq_num_heads = 2, gq_query_groups = 2, gq_head_dim = 1, gq_rpe_ratio = 1, gq_scale = 1,
      gq_qkv = ex_qkv, gq_proj = ex_proj\<rparr>"

definition gqa_four_heads :: gqa where
  "gqa_four_heads =
     \<lparr>gq_num_heads = 4, gq_query_groups = 2, gq_head_dim = 1, gq_rpe_ratio = 1, gq_scale = 1,
      gq_qkv = \<lparr>lin_weight = \<lparr>shape = [8, 4], elems =
                  [1, 0, 0, 0, 0, 1, 0, 0, 1, 1, 0, 0, 0, 2, 0, 0,
                   0, 0, 1, 0, 0, 0, 0, 1, 0, 0, 1, 1, 0, 0, 0, 2]\<rparr>, lin_bias = None\<rparr>,
      gq_proj = \<lparr>lin_weight = \<lparr>shape = [4, 4], elems =
                  [1, 0, 0, 0, 0, 1, 0, 0, 0, 0, 1, 0, 0, 0, 0, 1]\<rparr>, lin_bias = None\<rparr>\<rparr>"

section \<open>Properties of the GSAttention causal mask\<close>

lemma gsa_token_visible_num_length:
  "length (gsa_token_visible_num H W sr_ratio) = H * W"
  by (simp add: gsa_token_visible_num_def Let_def)

lemma gsa_token_visible_num_nth:
  assumes "i < H * W"
  shows "gsa_token_visible_num H W sr_ratio ! i =
           (i div (sr_ratio * H)) * sr_ratio + ((i div H + (i mod H) * H) div (sr_ratio * H)) + 1"
  using assms by (simp add: gsa_token_visible_num_def Let_def)

lemma gsa_fill_mask_nth:
  assumes "i < length tvn" and "j < N_reduce"
  shows "gsa_fill_mask tvn N_reduce ! i ! j = (if j < tvn ! i then Fin 0 else NegInf)"
  using assms by (simp add: gsa_fill_mask_def)

lemma test_token_visible_num_eq: "test_token_visible_num = gsa_token_visible_num 4 4 2"
  by (simp add: test_token_visible_num_def gsa_token_visible_num_def Let_def)

text \<open>
  C1. With \<open>casual_attn=True\<close>, row \<open>i\<close> of the additive mask built by \<open>GSAttention.forward\<close>
  is \<open>0\<close> exactly at the reduced-key indices below
  \<open>x_block * sr_ratio + y_block + 1\<close> and \<open>-inf\<close> elsewhere, with
  \<open>x_block = i div (sr_ratio * H)\<close> and
  \<open>y_block = (i div H + (i mod H) * H) div (sr_ratio * H)\<close>. For \<open>H = W = 4\<close>,
  \<open>sr_ratio = 2\<close> the count at query index 5 is the one \<open>my_py/test.py\<close> enumerates, 1.
\<close>

theorem gsa_causal_mask_rows:
  assumes "0 < sr_ratio" and "i < H * W" and "j < H * W div sr_ratio div sr_ratio"
  shows "\<exists>m. gsa_causal_mask H W sr_ratio = Inr m \<and> length m = H * W
            \<and> length (m ! i) = H * W div sr_ratio div sr_ratio
            \<and> m ! i ! j =
                (if j < (i div (sr_ratio * H)) * sr_ratio
                          + ((i div H + (i mod H) * H) div (sr_ratio * H)) + 1
                 then Fin 0 else NegInf)
            \<and> gsa_token_visible_num 4 4 2 ! 5 = test_token_visible_num ! 5
            \<and> test_token_visible_num ! 5 = 1"
proof -
  let ?N = "H * W div sr_ratio div sr_ratio"
  let ?tvn = "gsa_token_visible_num H W sr_ratio"
  have m: "gsa_causal_mask H W sr_ratio = Inr (gsa_fill_mask ?tvn ?N)"
    using assms(1) by (simp add: gsa_causal_mask_def gsa_N_reduce_def)
  have len: "length (gsa_fill_mask ?tvn ?N) = H * W"
    by (simp add: gsa_fill_mask_def gsa_token_visible_num_length)
  have row: "length (gsa_fill_mask ?tvn ?N ! i) = ?N"
    using assms(2) by (simp add: gsa_fill_mask_def gsa_token_visible_num_length)
  have entry: "gsa_fill_mask ?tvn ?N ! i ! j =
      (if j < (i div (sr_ratio * H)) * sr_ratio
                + ((i div H + (i mod H) * H) div (sr_ratio * H)) + 1
       then Fin 0 else NegInf)"
    using assms(2,3)
    by (simp add: gsa_fill_mask_nth gsa_token_visible_num_length gsa_token_visible_num_nth)
  have golden: "test_token_visible_num ! 5 = 1"
    by (simp add: test_token_visible_num_eq gsa_token_visible_num_nth)
  show ?thesis
    using m len row entry golden by (simp add: test_token_visible_num_eq)
qed

theorem gsa_causal_mask_rows_witness:
  "(0::nat) < 2 \<and> (5::nat) < 4 * 4 \<and> (1::nat) < 4 * 4 div 2 div 2
   \<and> (\<exists>m. gsa_causal_mask 4 4 2 = Inr m \<and> m ! 5 ! 0 = Fin 0 \<and> m ! 5 ! 1 = NegInf)"
proof -
  have a: "(0::nat) < 2" and b: "(5::nat) < 4 * 4" by simp_all
  have c0: "(0::nat) < 4 * 4 div 2 div 2" and c1: "(1::nat) < 4 * 4 div 2 div 2" by simp_all
  from gsa_causal_mask_rows [OF a b c0] gsa_causal_mask_rows [OF a b c1]
  show ?thesis by auto
qed

section \<open>Properties of the RAttention causal masks\<close>

lemma py_int_of_nat: "nat (py_int (real n)) = n"
  by (simp add: py_int_def)

lemma floor_div_real_nat: "\<lfloor>real p / real h\<rfloor> = int (p div h)"
  by (simp add: floor_divide_of_nat_eq)

lemma remainder_real_nat: "real p - real h * real_of_int \<lfloor>real p / real h\<rfloor> = real (p mod h)"
proof -
  have "real (h * (p div h) + p mod h) = real p" by simp
  then have "real h * real (p div h) + real (p mod h) = real p"
    by (simp only: of_nat_add of_nat_mult)
  then show ?thesis by (simp only: floor_div_real_nat of_int_of_nat_eq)
qed

lemma visible_row_nat:
  "visible_pos_2d (real h) (nat (py_int (real_of_int \<lfloor>real p / real h\<rfloor>)))
       (nat (py_int (real p - real h * real_of_int \<lfloor>real p / real h\<rfloor>)))
     = visible_pos_2d (real h) (p div h) (p mod h)"
proof -
  have x: "nat (py_int (real_of_int \<lfloor>real p / real h\<rfloor>)) = p div h"
    using py_int_of_nat [of "p div h"] by (simp add: floor_div_real_nat)
  have y: "nat (py_int (real p - real h * real_of_int \<lfloor>real p / real h\<rfloor>)) = p mod h"
    unfolding remainder_real_nat by (rule py_int_of_nat)
  show ?thesis unfolding x y ..
qed

lemma visible_pos_2d_nat:
  "visible_pos_2d (real h) x y =
     concat (map (\<lambda>row. map (\<lambda>col. row * h + col) [0..<y + 1]) [0..<x + 1])"
proof -
  have "nat (py_int (real row * real h + real col)) = row * h + col" for row col
    using py_int_of_nat [of "row * h + col"] by simp
  then show ?thesis by (simp add: visible_pos_2d_def)
qed

lemma set_visible_pos_2d:
  "set (visible_pos_2d (real h) x y) = {row * h + col | row col. row \<le> x \<and> col \<le> y}"
proof -
  have "set (visible_pos_2d (real h) x y)
          = (\<Union>row \<in> {0..<x + 1}. (\<lambda>col. row * h + col) ` {0..<y + 1})"
    by (simp add: visible_pos_2d_nat del: upt_Suc)
  also have "\<dots> = {row * h + col | row col. row \<le> x \<and> col \<le> y}"
  proof (intro set_eqI iffI)
    fix j assume "j \<in> (\<Union>row \<in> {0..<x + 1}. (\<lambda>col. row * h + col) ` {0..<y + 1})"
    then obtain row col where "row \<in> {0..<x + 1}" "col \<in> {0..<y + 1}" "j = row * h + col"
      by blast
    then have "row \<le> x \<and> col \<le> y \<and> j = row * h + col" by simp
    then show "j \<in> {row * h + col | row col. row \<le> x \<and> col \<le> y}" by blast
  next
    fix j assume "j \<in> {row * h + col | row col. row \<le> x \<and> col \<le> y}"
    then obtain row col where "row \<le> x" "col \<le> y" "j = row * h + col" by auto
    then have "row \<in> {0..<x + 1}" "col \<in> {0..<y + 1}" by auto
    then show "j \<in> (\<Union>row \<in> {0..<x + 1}. (\<lambda>col. row * h + col) ` {0..<y + 1})"
      using \<open>j = row * h + col\<close> by blast
  qed
  finally show ?thesis .
qed

lemma fold_list_update_nth:
  "j < length row \<Longrightarrow>
     fold (\<lambda>k r. r[k := v]) ps row ! j = (if j \<in> set ps then v else row ! j)"
  by (induction ps arbitrary: row) (auto simp: nth_list_update)

lemma fold_list_update_length: "length (fold (\<lambda>k r. r[k := v]) ps row) = length row"
  by (induction ps arbitrary: row) auto

lemma collect_rows_all_Inr: "collect_rows (map (\<lambda>x. Inr (g x)) xs) = Inr (map g xs)"
  by (induction xs) auto

lemma collect_rows_map_Inr:
  assumes "\<And>x. x \<in> set xs \<Longrightarrow> f x = Inr (g x)"
  shows "collect_rows (map f xs) = Inr (map g xs)"
proof -
  have "map f xs = map (\<lambda>x. Inr (g x)) xs" using assms by (intro map_cong) auto
  then show ?thesis by (simp only: collect_rows_all_Inr)
qed

lemma visible_in_range:
  assumes "0 < h" and "p < h * h" and "j \<in> set (visible_pos_2d (real h) (p div h) (p mod h))"
  shows "j < h * h"
proof -
  from assms(3) obtain row col where j: "j = row * h + col" and r: "row \<le> p div h" and c: "col \<le> p mod h"
    by (auto simp: set_visible_pos_2d)
  have "row * h \<le> (p div h) * h" using r by (rule mult_le_mono1)
  then have "row * h + col \<le> (p div h) * h + p mod h"
    using c by (rule add_mono)
  then have "j \<le> p" using j by simp
  then show ?thesis using assms(2) by simp
qed

lemma visible_iff:
  assumes "0 < h"
  shows "j \<in> set (visible_pos_2d (real h) (p div h) (p mod h))
           \<longleftrightarrow> j div h \<le> p div h \<and> j mod h \<le> p mod h"
proof
  assume "j \<in> set (visible_pos_2d (real h) (p div h) (p mod h))"
  then obtain row col where j: "j = row * h + col" and r: "row \<le> p div h" and c: "col \<le> p mod h"
    by (auto simp: set_visible_pos_2d)
  have "col < h" using c assms by (meson le_less_trans mod_less_divisor)
  then have "j div h = row" "j mod h = col" using j by simp_all
  then show "j div h \<le> p div h \<and> j mod h \<le> p mod h" using r c by simp
next
  assume a: "j div h \<le> p div h \<and> j mod h \<le> p mod h"
  have "j = (j div h) * h + j mod h" by simp
  then show "j \<in> set (visible_pos_2d (real h) (p div h) (p mod h))"
    unfolding set_visible_pos_2d using a by blast
qed

lemma casual_mask_2d_square:
  assumes "0 < h"
  shows "casual_mask_2d (h * h) =
           Inr (map (\<lambda>p. fold (\<lambda>k r. r[k := Fin 0]) (visible_pos_2d (real h) (p div h) (p mod h))
                             (replicate (h * h) NegInf)) [0..<h * h])"
proof -
  have sq: "sqrt (real (h * h)) = real h" by simp
  let ?vis = "\<lambda>p. visible_pos_2d (real h) (p div h) (p mod h)"
  have rows: "map2 (\<lambda>x y. visible_pos_2d (real h) (nat (py_int x)) (nat (py_int y)))
                (map (\<lambda>p. real_of_int \<lfloor>real p / real h\<rfloor>) [0..<h * h])
                (map (\<lambda>p. real p - real h * real_of_int \<lfloor>real p / real h\<rfloor>) [0..<h * h])
              = map ?vis [0..<h * h]"
    unfolding zip_map_map zip_same_conv_map map_map comp_def split_beta fst_conv snd_conv
      visible_row_nat ..
  have fill: "index_fill_zero (replicate (h * h) NegInf) (?vis p)
                = Inr (fold (\<lambda>k r. r[k := Fin 0]) (?vis p) (replicate (h * h) NegInf))"
    if "p \<in> set [0..<h * h]" for p
    using visible_in_range [OF assms, of p] that by (auto simp: index_fill_zero_def)
  have "casual_mask_2d (h * h) =
          collect_rows (map (index_fill_zero (replicate (h * h) NegInf)) (map ?vis [0..<h * h]))"
    unfolding casual_mask_2d_def casual_mask_2d_at_def Let_def sq rows ..
  also have "\<dots> = Inr (map (\<lambda>p. fold (\<lambda>k r. r[k := Fin 0]) (?vis p) (replicate (h * h) NegInf))
                          [0..<h * h])"
    unfolding map_map comp_def by (rule collect_rows_map_Inr) (rule fill)
  finally show ?thesis .
qed

lemma casual_mask_2d_entry:
  assumes "0 < h" and "i < h * h" and "j < h * h"
  shows "\<exists>m. casual_mask_2d (h * h) = Inr m \<and> length m = h * h \<and> length (m ! i) = h * h
           \<and> m ! i ! j = (if j div h \<le> i div h \<and> j mod h \<le> i mod h then Fin 0 else NegInf)"
  using assms
  by (simp add: casual_mask_2d_square fold_list_update_nth fold_list_update_length visible_iff
        del: upt_Suc)

lemma casual_mask_2d_at_2_4:
  "casual_mask_2d_at 2 4 =
     Inr [[Fin 0, NegInf, NegInf, NegInf], [Fin 0, Fin 0, NegInf, NegInf],
          [Fin 0, NegInf, Fin 0, NegInf], [Fin 0, Fin 0, Fin 0, Fin 0]]"
  by code_simp

lemma casual_mask_2d_4:
  "casual_mask_2d 4 =
     Inr [[Fin 0, NegInf, NegInf, NegInf], [Fin 0, Fin 0, NegInf, NegInf],
          [Fin 0, NegInf, Fin 0, NegInf], [Fin 0, Fin 0, Fin 0, Fin 0]]"
  by (simp add: casual_mask_2d_def casual_mask_2d_at_2_4)

text \<open>
  C2. Constructed with \<open>casual_attn_2d=True\<close>, \<open>use_cls_token=False\<close> and
  \<open>token_num = H * H\<close>, the cached \<open>casual_mask\<close> is \<open>0\<close> at \<open>(i, j)\<close> when
  \<open>j div H \<le> i div H\<close> and \<open>j mod H \<le> i mod H\<close>, and \<open>-inf\<close> otherwise. On the
  2 by 2 grid index 3 sees all four positions and index 0 only itself.
\<close>

theorem rattention_casual_mask_2d:
  assumes "i < H * H" and "j < H * H"
  shows "\<exists>m. rattention_init_mask casual_attn_1d True (Some (H * H)) False = Inr (Some m)
           \<and> length m = H * H \<and> length (m ! i) = H * H
           \<and> m ! i ! j = (if j div H \<le> i div H \<and> j mod H \<le> i mod H then Fin 0 else NegInf)
           \<and> (\<exists>m4. rattention_init_mask casual_attn_1d True (Some 4) False = Inr (Some m4)
                \<and> m4 ! 3 = [Fin 0, Fin 0, Fin 0, Fin 0]
                \<and> m4 ! 0 = [Fin 0, NegInf, NegInf, NegInf])"
proof -
  have "0 < H" using assms(1) by (cases H) auto
  from casual_mask_2d_entry [OF this assms]
  show ?thesis by (auto simp: rattention_init_mask_def casual_mask_2d_4)
qed

theorem rattention_casual_mask_2d_witness:
  "(5::nat) < 3 * 3 \<and> (4::nat) < 3 * 3 \<and> (2::nat) < 3 * 3
   \<and> (\<exists>m. rattention_init_mask False True (Some (3 * 3)) False = Inr (Some m)
          \<and> m ! 5 ! 4 = Fin 0 \<and> m ! 5 ! 2 = Fin 0 \<and> m ! 4 ! 2 = NegInf)"
proof -
  have a: "(5::nat) < 3 * 3" and b: "(4::nat) < 3 * 3" and c: "(2::nat) < 3 * 3" by simp_all
  from rattention_casual_mask_2d [OF a b, of False] rattention_casual_mask_2d [OF a c, of False]
    rattention_casual_mask_2d [OF b c, of False]
  show ?thesis by auto
qed

section \<open>Properties of the frequency tables\<close>

lemma arange_step_length: "0 < step \<Longrightarrow> rdim div step \<le> length (arange_step rdim step)"
proof -
  assume "0 < step"
  have "rdim \<le> rdim + step - 1" using \<open>0 < step\<close> by simp
  then have "rdim div step \<le> (rdim + step - 1) div step" by (rule div_le_mono)
  then show ?thesis by (simp add: arange_step_def)
qed

lemma rope_freqs_length: "0 < step \<Longrightarrow> length (rope_freqs rdim step theta) = rdim div step"
  using arange_step_length [of step rdim] by (simp add: rope_freqs_def)

lemma outer_polar_length: "length (outer_polar t freqs) = length t"
  by (simp add: outer_polar_def)

lemma outer_polar_row_length: "row \<in> set (outer_polar t freqs) \<Longrightarrow> length row = length freqs"
  by (auto simp: outer_polar_def)

lemma outer_polar_unit: "row \<in> set (outer_polar t freqs) \<Longrightarrow> z \<in> set row \<Longrightarrow> cmod z = 1"
  by (auto simp: outer_polar_def)

lemma interleave_row_length:
  "length xr = length yr \<Longrightarrow> length (concat (map2 (\<lambda>x y. [x, y]) xr yr)) = 2 * length xr"
  by (induction xr yr rule: list_induct2) auto

lemma interleave_row_set:
  "set (concat (map2 (\<lambda>x y. [x, y]) xr yr)) \<subseteq> set xr \<union> set yr"
  by (induction xr yr rule: list_induct2') auto

lemma interleave_xy_shape:
  assumes "x_cis \<noteq> []" and "length x_cis = length y_cis"
    and "\<And>r. r \<in> set x_cis \<Longrightarrow> length r = n" and "\<And>r. r \<in> set y_cis \<Longrightarrow> length r = n"
  shows "\<exists>t. interleave_xy x_cis y_cis = Inr t \<and> length t = length x_cis
           \<and> (\<forall>row \<in> set t. length row = 2 * n)"
proof -
  let ?t = "map2 (\<lambda>xr yr. concat (map2 (\<lambda>x y. [x, y]) xr yr)) x_cis y_cis"
  have "length row = 2 * n" if "row \<in> set ?t" for row
  proof -
    from that obtain xr yr where xy: "(xr, yr) \<in> set (zip x_cis y_cis)"
      and row: "row = concat (map2 (\<lambda>x y. [x, y]) xr yr)" by auto
    have "length xr = n" "length yr = n"
      using xy assms(3,4) by (auto dest: set_zip_leftD set_zip_rightD)
    then show ?thesis using row by (simp add: interleave_row_length)
  qed
  then show ?thesis using assms(1,2) by (simp add: interleave_xy_def)
qed

lemma interleave_xy_unit:
  assumes "interleave_xy x_cis y_cis = Inr t" and "row \<in> set t" and "z \<in> set row"
    and "\<And>r w. r \<in> set x_cis \<Longrightarrow> w \<in> set r \<Longrightarrow> cmod w = 1"
    and "\<And>r w. r \<in> set y_cis \<Longrightarrow> w \<in> set r \<Longrightarrow> cmod w = 1"
  shows "cmod z = 1"
proof -
  from assms(1) have t: "t = map2 (\<lambda>xr yr. concat (map2 (\<lambda>x y. [x, y]) xr yr)) x_cis y_cis"
    by (simp add: interleave_xy_def split: if_splits)
  have "row \<in> (\<lambda>(xr, yr). concat (map2 (\<lambda>x y. [x, y]) xr yr)) ` set (zip x_cis y_cis)"
    using assms(2) unfolding t by simp
  then obtain xr yr where xy: "(xr, yr) \<in> set (zip x_cis y_cis)"
    and row: "row = concat (map2 (\<lambda>x y. [x, y]) xr yr)" by (elim imageE) (simp split: prod.splits)
  have "set row \<subseteq> set xr \<union> set yr" unfolding row by (rule interleave_row_set)
  then have z: "z \<in> set xr \<or> z \<in> set yr" using assms(3) by (simp add: subset_iff)
  have x: "xr \<in> set x_cis" using xy by (rule set_zip_leftD)
  have y: "yr \<in> set y_cis" using xy by (rule set_zip_rightD)
  from z show ?thesis
  proof
    assume "z \<in> set xr" with x show ?thesis by (rule assms(4))
  next
    assume "z \<in> set yr" with y show ?thesis by (rule assms(5))
  qed
qed

lemma py_isqrt_pos: "0 < endn \<Longrightarrow> 0 < py_isqrt endn"
proof -
  assume "0 < endn"
  then have "1 \<le> sqrt (real endn)" by simp
  then have "1 \<le> \<lfloor>sqrt (real endn)\<rfloor>" by simp
  then show ?thesis by (simp add: py_isqrt_def py_int_def)
qed

lemma flat_patch_pos_of_length:
  "length (flat_patch_pos_of use_cls endn) = (if use_cls then endn + 1 else endn)"
  by (simp add: flat_patch_pos_of_def)

lemma flat_patch_pos_of_nonempty: "0 < endn \<Longrightarrow> flat_patch_pos_of use_cls endn \<noteq> []"
  by (cases endn) (auto simp: flat_patch_pos_of_def upt_rec)

lemma table_shape:
  assumes "xs \<noteq> []" and "length xs = length ys" and "length F = n"
  shows "\<exists>t. interleave_xy (outer_polar xs F) (outer_polar ys F) = Inr t
           \<and> length t = length xs \<and> (\<forall>row \<in> set t. length row = 2 * n)"
proof -
  have "\<exists>t. interleave_xy (outer_polar xs F) (outer_polar ys F) = Inr t
           \<and> length t = length (outer_polar xs F) \<and> (\<forall>row \<in> set t. length row = 2 * n)"
    using assms by (intro interleave_xy_shape) (auto simp: outer_polar_def)
  then show ?thesis by (simp add: outer_polar_length)
qed

lemma table_unit:
  assumes "interleave_xy (outer_polar xs F) (outer_polar ys F) = Inr t"
    and "row \<in> set t" and "z \<in> set row"
  shows "cmod z = 1"
  using assms(1,2,3) by (rule interleave_xy_unit) (auto dest: outer_polar_unit)

lemma precompute_freqs_cis_2d_eq:
  assumes "0 < endn"
  shows "\<exists>xs ys. length xs = length (flat_patch_pos_of use_cls endn)
            \<and> length ys = length (flat_patch_pos_of use_cls endn)
            \<and> precompute_freqs_cis_2d rdim endn theta scale use_cls cls_pos
                = interleave_xy (outer_polar xs (rope_freqs rdim 4 theta))
                                (outer_polar ys (rope_freqs rdim 4 theta))"
proof -
  have H: "py_isqrt endn \<noteq> 0" using py_isqrt_pos [OF assms] by simp
  let ?fpp = "flat_patch_pos_of use_cls endn"
  let ?x0 = "map (\<lambda>p. real_of_int (p mod int (py_isqrt endn)) * scale) ?fpp"
  let ?y0 = "map (\<lambda>p. real_of_int (p div int (py_isqrt endn)) * scale) ?fpp"
  let ?x = "if use_cls \<and> cls_pos \<noteq> -1 then ?x0[0 := cls_pos] else ?x0"
  let ?y = "if use_cls \<and> cls_pos \<noteq> -1 then ?y0[0 := cls_pos] else ?y0"
  have "precompute_freqs_cis_2d rdim endn theta scale use_cls cls_pos
          = interleave_xy (outer_polar ?x (rope_freqs rdim 4 theta))
                          (outer_polar ?y (rope_freqs rdim 4 theta))"
    unfolding precompute_freqs_cis_2d_def Let_def using H by (simp only: simp_thms if_False)
  moreover have "length ?x = length ?fpp" "length ?y = length ?fpp" by simp_all
  ultimately show ?thesis by blast
qed

lemma precompute_freqs_cis_2d_general_eq:
  assumes "0 < endn"
  shows "\<exists>xs ys. length xs = length (flat_patch_pos_of use_cls endn)
            \<and> length ys = length (flat_patch_pos_of use_cls endn)
            \<and> precompute_freqs_cis_2d_general rdim endn step W bias theta scale use_cls
                = interleave_xy (outer_polar xs (rope_freqs rdim 4 theta))
                                (outer_polar ys (rope_freqs rdim 4 theta))"
proof -
  let ?W = "if W = 0 then py_isqrt endn else W"
  have W: "?W \<noteq> 0" using py_isqrt_pos [OF assms] by simp
  let ?fpp = "flat_patch_pos_of use_cls endn"
  let ?x = "map (\<lambda>p. scale * p) (map (\<lambda>p. bias + real_of_int (p mod int ?W) * real step) ?fpp)"
  let ?y = "map (\<lambda>p. scale * p) (map (\<lambda>p. bias + real_of_int (p div int ?W) * real step) ?fpp)"
  have "precompute_freqs_cis_2d_general rdim endn step W bias theta scale use_cls
          = interleave_xy (outer_polar ?x (rope_freqs rdim 4 theta))
                          (outer_polar ?y (rope_freqs rdim 4 theta))"
    using W unfolding precompute_freqs_cis_2d_general_def Let_def by (simp only: simp_thms if_False)
  moreover have "length ?x = length ?fpp" "length ?y = length ?fpp" by simp_all
  ultimately show ?thesis by blast
qed

lemma precompute_freqs_cis_2d_shape:
  assumes "0 < endn"
  shows "\<exists>t. precompute_freqs_cis_2d rdim endn theta scale use_cls cls_pos = Inr t
           \<and> length t = (if use_cls then endn + 1 else endn)
           \<and> (\<forall>row \<in> set t. length row = 2 * (rdim div 4))"
proof -
  from precompute_freqs_cis_2d_eq [OF assms, of use_cls rdim theta scale cls_pos]
  obtain xs ys where l: "length xs = length (flat_patch_pos_of use_cls endn)"
      "length ys = length (flat_patch_pos_of use_cls endn)"
    and eq: "precompute_freqs_cis_2d rdim endn theta scale use_cls cls_pos
               = interleave_xy (outer_polar xs (rope_freqs rdim 4 theta))
                               (outer_polar ys (rope_freqs rdim 4 theta))" by blast
  have ne: "xs \<noteq> []" using l(1) flat_patch_pos_of_nonempty [OF assms, of use_cls] by auto
  have "length (rope_freqs rdim 4 theta) = rdim div 4" by (simp add: rope_freqs_length)
  from table_shape [OF ne _ this, of ys] l
  show ?thesis unfolding eq by (simp add: flat_patch_pos_of_length)
qed

lemma precompute_freqs_cis_2d_general_shape:
  assumes "0 < endn"
  shows "\<exists>t. precompute_freqs_cis_2d_general rdim endn step W bias theta scale use_cls = Inr t
           \<and> length t = (if use_cls then endn + 1 else endn)
           \<and> (\<forall>row \<in> set t. length row = 2 * (rdim div 4))"
proof -
  from precompute_freqs_cis_2d_general_eq [OF assms, of use_cls rdim step W bias theta scale]
  obtain xs ys where l: "length xs = length (flat_patch_pos_of use_cls endn)"
      "length ys = length (flat_patch_pos_of use_cls endn)"
    and eq: "precompute_freqs_cis_2d_general rdim endn step W bias theta scale use_cls
               = interleave_xy (outer_polar xs (rope_freqs rdim 4 theta))
                               (outer_polar ys (rope_freqs rdim 4 theta))" by blast
  have ne: "xs \<noteq> []" using l(1) flat_patch_pos_of_nonempty [OF assms, of use_cls] by auto
  have "length (rope_freqs rdim 4 theta) = rdim div 4" by (simp add: rope_freqs_length)
  from table_shape [OF ne _ this, of ys] l
  show ?thesis unfolding eq by (simp add: flat_patch_pos_of_length)
qed

lemma map_length_const:
  "(\<forall>row \<in> set t. length row = n) \<Longrightarrow> map length t = replicate (length t) n"
  by (induction t) auto

text \<open>
  C4, as the code has it. Neither \<open>precompute_freqs_cis_2d\<close> nor
  \<open>precompute_freqs_cis_2d_general\<close> checks \<open>dim\<close>: for every \<open>dim\<close> and every positive
  \<open>end\<close> the call returns a table of \<open>end\<close> rows (one more with a class token) of
  \<open>2 * (dim // 4)\<close> complex channels, so a \<open>dim\<close> that is not a multiple of 4 is cut down to
  \<open>4 * (dim // 4)\<close> real channels.
\<close>

theorem precompute_freqs_cis_2d_no_dim_check:
  assumes "0 < endn"
  shows "(\<exists>t. precompute_freqs_cis_2d rdim endn theta scale use_cls cls_pos = Inr t
            \<and> length t = (if use_cls then endn + 1 else endn)
            \<and> (\<forall>row \<in> set t. length row = 2 * (rdim div 4)))
       \<and> (\<exists>t. precompute_freqs_cis_2d_general rdim endn step W bias theta scale use_cls = Inr t
            \<and> length t = (if use_cls then endn + 1 else endn)
            \<and> (\<forall>row \<in> set t. length row = 2 * (rdim div 4)))"
  using precompute_freqs_cis_2d_shape [OF assms] precompute_freqs_cis_2d_general_shape [OF assms]
  by blast

theorem precompute_freqs_cis_2d_no_dim_check_witness:
  "(0::nat) < 4
   \<and> (\<exists>t. precompute_freqs_cis_2d 6 4 10000 1 False (-1) = Inr t \<and> length t = 4
          \<and> (\<forall>row \<in> set t. length row = 2))
   \<and> (\<exists>t. precompute_freqs_cis_2d_general 6 4 1 0 0 10000 1 False = Inr t \<and> length t = 4
          \<and> (\<forall>row \<in> set t. length row = 2))"
proof -
  have a: "(0::nat) < 4" by simp
  from precompute_freqs_cis_2d_no_dim_check [OF a, of 6 10000 1 False "-1" 1 0 0]
  show ?thesis by simp
qed

text \<open>
  C4 as stated fails: \<open>dim = 6\<close> is not a multiple of 4, and both functions return a table
  for it, of two complex channels a row where \<open>dim / 2\<close> is three.
\<close>

theorem precompute_freqs_cis_2d_dim_6_returns:
  "\<not> isl (precompute_freqs_cis_2d 6 4 10000 1 False (-1))
   \<and> map length (projr (precompute_freqs_cis_2d 6 4 10000 1 False (-1))) = [2, 2, 2, 2]
   \<and> \<not> isl (precompute_freqs_cis_2d_general 6 4 1 0 0 10000 1 False)
   \<and> map length (projr (precompute_freqs_cis_2d_general 6 4 1 0 0 10000 1 False)) = [2, 2, 2, 2]"
proof -
  have a: "(0::nat) < 4" by simp
  have r: "replicate 4 (2::nat) = [2, 2, 2, 2]" by (simp add: numeral_eq_Suc)
  from precompute_freqs_cis_2d_shape [OF a, of 6 10000 1 False "-1"]
  obtain t where t: "precompute_freqs_cis_2d 6 4 10000 1 False (-1) = Inr t" "length t = 4"
    "\<forall>row \<in> set t. length row = 2" by auto
  from precompute_freqs_cis_2d_general_shape [OF a, of 6 1 0 0 10000 1 False]
  obtain u where u: "precompute_freqs_cis_2d_general 6 4 1 0 0 10000 1 False = Inr u" "length u = 4"
    "\<forall>row \<in> set u. length row = 2" by auto
  have "map length t = [2, 2, 2, 2]" using map_length_const [OF t(3)] t(2) r by simp
  moreover have "map length u = [2, 2, 2, 2]" using map_length_const [OF u(3)] u(2) r by simp
  ultimately show ?thesis using t(1) u(1) by simp
qed

text \<open>
  C8. For a positive \<open>theta\<close> and a positive \<open>end\<close>, \<open>precompute_freqs_cis\<close> returns \<open>end\<close>
  rows of \<open>dim // 2\<close> entries and \<open>precompute_freqs_cis_2d\<close> returns a table, and every entry
  of either has magnitude 1.
\<close>

theorem freqs_cis_unit_magnitude:
  assumes "0 < theta" and "0 < endn"
  shows "length (precompute_freqs_cis rdim endn theta scale) = endn
       \<and> (\<forall>row \<in> set (precompute_freqs_cis rdim endn theta scale).
             length row = rdim div 2 \<and> (\<forall>z \<in> set row. cmod z = 1))
       \<and> (\<exists>t. precompute_freqs_cis_2d rdim endn theta scale use_cls cls_pos = Inr t
             \<and> length t = (if use_cls then endn + 1 else endn)
             \<and> (\<forall>row \<in> set t. \<forall>z \<in> set row. cmod z = 1))"
proof -
  have one: "length (precompute_freqs_cis rdim endn theta scale) = endn"
    by (simp add: precompute_freqs_cis_def Let_def outer_polar_length)
  have rows: "length row = rdim div 2 \<and> (\<forall>z \<in> set row. cmod z = 1)"
    if "row \<in> set (precompute_freqs_cis rdim endn theta scale)" for row
    using that unfolding precompute_freqs_cis_def Let_def
    by (auto dest: outer_polar_unit outer_polar_row_length simp: rope_freqs_length)
  from precompute_freqs_cis_2d_shape [OF assms(2), of rdim theta scale use_cls cls_pos]
  obtain t where t: "precompute_freqs_cis_2d rdim endn theta scale use_cls cls_pos = Inr t"
    and len: "length t = (if use_cls then endn + 1 else endn)" by blast
  from precompute_freqs_cis_2d_eq [OF assms(2), of use_cls rdim theta scale cls_pos]
  obtain xs ys where "precompute_freqs_cis_2d rdim endn theta scale use_cls cls_pos
      = interleave_xy (outer_polar xs (rope_freqs rdim 4 theta))
                      (outer_polar ys (rope_freqs rdim 4 theta))" by blast
  with t have "interleave_xy (outer_polar xs (rope_freqs rdim 4 theta))
                 (outer_polar ys (rope_freqs rdim 4 theta)) = Inr t" by simp
  then have unit: "\<forall>row \<in> set t. \<forall>z \<in> set row. cmod z = 1"
    using table_unit by blast
  show ?thesis using one rows t len unit by blast
qed

theorem freqs_cis_unit_magnitude_witness:
  "(0::real) < 10000 \<and> (0::nat) < 4
   \<and> length (precompute_freqs_cis 4 4 10000 1) = 4
   \<and> length (precompute_freqs_cis 4 4 10000 1 ! 3) = 2
   \<and> cmod (precompute_freqs_cis 4 4 10000 1 ! 3 ! 1) = 1
   \<and> (\<exists>t. precompute_freqs_cis_2d 4 4 10000 1 False (-1) = Inr t \<and> length t = 4
          \<and> (\<forall>row \<in> set t. \<forall>z \<in> set row. cmod z = 1))"
proof -
  have a: "(0::real) < 10000" and b: "(0::nat) < 4" by simp_all
  note w = freqs_cis_unit_magnitude [OF a b, of 4 1 False "-1"]
  from w have len: "length (precompute_freqs_cis 4 4 10000 1) = 4" by simp
  then have mem: "precompute_freqs_cis 4 4 10000 1 ! 3 \<in> set (precompute_freqs_cis 4 4 10000 1)"
    by simp
  with w have row: "length (precompute_freqs_cis 4 4 10000 1 ! 3) = 2" by simp
  then have "precompute_freqs_cis 4 4 10000 1 ! 3 ! 1 \<in> set (precompute_freqs_cis 4 4 10000 1 ! 3)"
    by simp
  with w mem have "cmod (precompute_freqs_cis 4 4 10000 1 ! 3 ! 1) = 1" by blast
  with w len row show ?thesis by simp
qed

section \<open>Properties of the tensor operations\<close>

lemma concat_map_upt_length:
  assumes "\<And>i. i < d \<Longrightarrow> length (f i) = n"
  shows "length (concat (map f [0..<d])) = d * n"
  using assms by (induction d) auto

lemma concat_map_upt_nth:
  assumes "\<And>i. i < d \<Longrightarrow> length (f i) = n" and "i < d" and "j < n"
  shows "concat (map f [0..<d]) ! (i * n + j) = f i ! j"
  using assms
proof (induction d)
  case 0
  then show ?case by simp
next
  case (Suc d)
  have len: "length (concat (map f [0..<d])) = d * n"
    using Suc.prems(1) by (intro concat_map_upt_length) simp
  show ?case
  proof (cases "i < d")
    case True
    have "i * n + j < d * n"
    proof -
      have "i * n + j < i * n + n" using Suc.prems(3) by simp
      also have "\<dots> = Suc i * n" by simp
      also have "\<dots> \<le> d * n" using True by (intro mult_le_mono1) simp
      finally show ?thesis .
    qed
    then show ?thesis using Suc True len by (simp add: nth_append)
  next
    case False
    then have "i = d" using Suc.prems(2) by simp
    then show ?thesis using len by (simp add: nth_append)
  qed
qed

lemma all_idx_length: "length (all_idx s) = prod_list s"
  by (induction s) (simp_all add: concat_map_upt_length)

lemma ravel_less: "valid_idx s idx \<Longrightarrow> ravel s idx < prod_list s"
proof (induction s idx rule: valid_idx.induct)
  case (2 d s i idx)
  then have a: "i < d" and b: "ravel s idx < prod_list s" by simp_all
  have "i * prod_list s + ravel s idx < i * prod_list s + prod_list s" using b by simp
  also have "\<dots> = Suc i * prod_list s" by simp
  also have "\<dots> \<le> d * prod_list s" using a by (intro mult_le_mono1) simp
  finally show ?case by simp
qed simp_all

lemma all_idx_nth: "valid_idx s idx \<Longrightarrow> all_idx s ! ravel s idx = idx"
proof (induction s idx rule: valid_idx.induct)
  case (2 d s i idx)
  then have a: "i < d" and v: "valid_idx s idx" by simp_all
  have b: "ravel s idx < prod_list s" using v by (rule ravel_less)
  have "concat (map (\<lambda>i. map ((#) i) (all_idx s)) [0..<d]) ! (i * prod_list s + ravel s idx)
          = map ((#) i) (all_idx s) ! ravel s idx"
    using a b by (intro concat_map_upt_nth) (simp_all add: all_idx_length)
  then show ?case using b "2.IH" v by (simp add: all_idx_length)
qed simp_all

lemma tget_tab: "valid_idx s idx \<Longrightarrow> tget (tab s f) idx = f idx"
  using ravel_less [of s idx] by (simp add: tget_def tab_def all_idx_length all_idx_nth)

lemma shape_tab: "shape (tab s f) = s"
  by (simp add: tab_def)

lemma valid_idx_length: "valid_idx s idx \<Longrightarrow> length idx = length s"
  by (induction s idx rule: valid_idx.induct) simp_all

lemma valid_idx_nth: "valid_idx s idx \<Longrightarrow> k < length s \<Longrightarrow> idx ! k < s ! k"
proof (induction s idx arbitrary: k rule: valid_idx.induct)
  case (2 d s i idx)
  then show ?case by (cases k) simp_all
qed simp_all

lemma valid_idx_iff: "valid_idx s idx \<longleftrightarrow> length idx = length s \<and> (\<forall>k < length s. idx ! k < s ! k)"
proof (induction s idx rule: valid_idx.induct)
  case (2 d s i idx)
  show ?case
  proof
    assume "valid_idx (d # s) (i # idx)"
    then show "length (i # idx) = length (d # s) \<and> (\<forall>k<length (d # s). (i # idx) ! k < (d # s) ! k)"
      using valid_idx_length valid_idx_nth by blast
  next
    assume r: "length (i # idx) = length (d # s) \<and> (\<forall>k<length (d # s). (i # idx) ! k < (d # s) ! k)"
    then have "i < d" by auto
    moreover have "\<forall>k<length s. idx ! k < s ! k"
    proof (intro allI impI)
      fix k assume "k < length s"
      then have "(i # idx) ! Suc k < (d # s) ! Suc k" using r by (metis Suc_less_eq length_Cons)
      then show "idx ! k < s ! k" by simp
    qed
    ultimately show "valid_idx (d # s) (i # idx)" using r "2.IH" by simp
  qed
qed auto

lemma reshape_Inr: "prod_list s = numel t \<Longrightarrow> reshape t s = Inr \<lparr>shape = s, elems = elems t\<rparr>"
  by (simp add: reshape_def)

lemma reshape_infer_Inr:
  assumes "0 < prod_list pre * prod_list post" and "numel t = prod_list pre * n * prod_list post"
  shows "reshape_infer t pre post = Inr \<lparr>shape = pre @ [n] @ post, elems = elems t\<rparr>"
proof -
  let ?m = "prod_list pre * prod_list post"
  have e: "numel t = n * ?m" using assms(2) by (simp add: mult_ac)
  then have "numel t mod ?m = 0" "numel t div ?m = n" using assms(1) by simp_all
  then show ?thesis using assms(1) by (simp add: reshape_infer_def Let_def)
qed

lemma numel_tab: "numel (tab s f) = prod_list s"
  by (simp add: numel_def tab_def)

lemma elems_tab_nth: "valid_idx s idx \<Longrightarrow> elems (tab s f) ! ravel s idx = f idx"
  using tget_tab [of s idx f] by (simp add: tget_def tab_def)

lemma shape_permute: "shape (permute t perm) = map (\<lambda>p. shape t ! p) perm"
  by (simp add: permute_def shape_tab)

lemma tget_permute:
  "valid_idx (map (\<lambda>p. shape t ! p) perm) idx \<Longrightarrow>
     tget (permute t perm) idx = tget t (map (\<lambda>d. idx ! index_of perm d) [0..<length perm])"
  by (simp add: permute_def tget_tab)

lemma shape_narrow: "shape (narrow d start len t) = (shape t)[d := len]"
  by (simp add: narrow_def shape_tab)

lemma tget_narrow:
  "valid_idx ((shape t)[d := len]) idx \<Longrightarrow>
     tget (narrow d start len t) idx = tget t (idx[d := idx ! d + start])"
  by (simp add: narrow_def tget_tab)

lemma elems_narrow_nth:
  "valid_idx ((shape t)[d := len]) idx \<Longrightarrow>
     elems (narrow d start len t) ! ravel ((shape t)[d := len]) idx = tget t (idx[d := idx ! d + start])"
  by (simp add: narrow_def elems_tab_nth)

lemma numel_narrow: "numel (narrow d start len t) = prod_list ((shape t)[d := len])"
  by (simp add: narrow_def numel_tab)

lemma upt_5: "[0..<5] = [0, 1, 2, 3, 4]"
  by (simp add: upt_rec)

lemma bidx_valid: "valid_idx s idx \<Longrightarrow> bidx s idx = idx"
proof (induction s idx rule: valid_idx.induct)
  case (2 d s i idx)
  then have "bidx s idx = idx" and "i < d" by simp_all
  moreover have "length idx = length s" using 2 by (simp add: valid_idx_length)
  ultimately show ?case by (auto simp: bidx_def)
qed (simp_all add: bidx_def)

lemma expand_same:
  "shape t = sizes \<Longrightarrow> expand t sizes = Inr (tab sizes (\<lambda>idx. tget t (bidx sizes idx)))"
  by (auto simp: expand_def ndim_def set_zip)

section \<open>Properties of RAttention\<close>

lemma andthen_Inr_iff: "andthen r f = Inr y \<longleftrightarrow> (\<exists>v. r = Inr v \<and> f v = Inr y)"
  by (cases r) (simp_all add: andthen_def)

lemma andthen_Inr [simp]: "andthen (Inr v) f = f v"
  by (simp add: andthen_def)

lemma andthen_Inl [simp]: "andthen (Inl e) f = Inl e"
  by (simp add: andthen_def)

lemma rattention_init_1d_no_cls:
  assumes "rattention_init dm nh qkv proj qk_scale enable_rpe rpe_ratio token_num True False False
             = Inr m"
  shows "ra_casual_mask m = None" and "ra_casual_attn_1d m" and "ra_enable_rpe m = enable_rpe"
  using assms
  by (auto simp: rattention_init_def rattention_init_mask_def Let_def andthen_Inr_iff
           split: if_splits option.splits)

lemma rattention_add_mask_missing:
  assumes "ra_casual_mask m = None" and "ra_casual_attn_2d m \<or> ra_casual_attn_1d m"
  shows "rattention_add_mask m attn = Inl AttributeError"
  using assms by (simp add: rattention_add_mask_def)

text \<open>
  C9. Constructed with \<open>casual_attn_1d=True\<close> and \<open>use_cls_token=False\<close> (and
  \<open>casual_attn_2d\<close> at its default, so that the 1D branch is the one taken), the module has
  no \<open>casual_mask\<close>. With \<open>enable_rpe=True\<close> no call of \<open>forward\<close> returns, and a call that
  gets as far as the scores fails at the mask addition with an \<open>AttributeError\<close>.
\<close>

theorem rattention_1d_no_cls_forward_fails:
  assumes "rattention_init dm nh qkv proj qk_scale True rpe_ratio token_num True False False = Inr m"
  shows "ra_casual_mask m = None
       \<and> (\<forall>r. rattention_forward super_forward m x freqs_cis \<noteq> Inr r)
       \<and> (\<forall>q k v attn. rattention_qkv m x freqs_cis = Inr (q, k, v)
             \<longrightarrow> rattention_scores m q k = Inr attn
             \<longrightarrow> rattention_forward super_forward m x freqs_cis = Inl AttributeError)"
proof -
  note i = rattention_init_1d_no_cls [OF assms]
  have miss: "rattention_add_mask m attn = Inl AttributeError" for attn
    using i(1,2) by (intro rattention_add_mask_missing) simp_all
  have never: "rattention_forward super_forward m x freqs_cis \<noteq> Inr r" for r
    using i(3) miss
    by (auto simp: rattention_forward_def andthen_Inr_iff)
  have there: "rattention_forward super_forward m x freqs_cis = Inl AttributeError"
    if "rattention_qkv m x freqs_cis = Inr (q, k, v)" and "rattention_scores m q k = Inr attn"
    for q k v attn
    using that i(3) miss by (simp add: rattention_forward_def)
  show ?thesis using i(1) never there by blast
qed

lemma ex_rattention_init:
  "rattention_init 2 1 ex_qkv ex_proj (Some 1) True 1 (Some 2) True False False =
     Inr \<lparr>ra_num_heads = 1, ra_scale = 1, ra_qkv = ex_qkv, ra_proj = ex_proj,
          ra_enable_rpe = True, ra_rpe_ratio = 1, ra_casual_attn_1d = True,
          ra_casual_attn_2d = False, ra_token_num = Some 2, ra_casual_mask = None\<rparr>"
  by (simp add: rattention_init_def rattention_init_mask_def Let_def)

lemma ex_rattention_qkv:
  "rattention_qkv
     \<lparr>ra_num_heads = 1, ra_scale = 1, ra_qkv = ex_qkv, ra_proj = ex_proj,
      ra_enable_rpe = True, ra_rpe_ratio = 1, ra_casual_attn_1d = True,
      ra_casual_attn_2d = False, ra_token_num = Some 2, ra_casual_mask = None\<rparr> ex_x ex_freqs =
     Inr (\<lparr>shape = [1, 1, 2, 2], elems = [1, 2, - 4, 3]\<rparr>,
          \<lparr>shape = [1, 1, 2, 2], elems = [3, 4, - 8, 7]\<rparr>,
          \<lparr>shape = [1, 1, 2, 2], elems = [3, 6, 9, 12]\<rparr>)"
  by code_simp

lemma ex_rattention_scores:
  "rattention_scores
     \<lparr>ra_num_heads = 1, ra_scale = 1, ra_qkv = ex_qkv, ra_proj = ex_proj,
      ra_enable_rpe = True, ra_rpe_ratio = 1, ra_casual_attn_1d = True,
      ra_casual_attn_2d = False, ra_token_num = Some 2, ra_casual_mask = None\<rparr>
     \<lparr>shape = [1, 1, 2, 2], elems = [1, 2, - 4, 3]\<rparr> \<lparr>shape = [1, 1, 2, 2], elems = [3, 4, - 8, 7]\<rparr> =
     Inr \<lparr>shape = [1, 1, 2, 2], elems = [11, 6, 0, 53]\<rparr>"
  by code_simp

theorem rattention_1d_no_cls_forward_fails_witness:
  "rattention_init 2 1 ex_qkv ex_proj (Some 1) True 1 (Some 2) True False False =
     Inr \<lparr>ra_num_heads = 1, ra_scale = 1, ra_qkv = ex_qkv, ra_proj = ex_proj,
          ra_enable_rpe = True, ra_rpe_ratio = 1, ra_casual_attn_1d = True,
          ra_casual_attn_2d = False, ra_token_num = Some 2, ra_casual_mask = None\<rparr>
   \<and> rattention_forward Inr
        \<lparr>ra_num_heads = 1, ra_scale = 1, ra_qkv = ex_qkv, ra_proj = ex_proj,
         ra_enable_rpe = True, ra_rpe_ratio = 1, ra_casual_attn_1d = True,
         ra_casual_attn_2d = False, ra_token_num = Some 2, ra_casual_mask = None\<rparr> ex_x ex_freqs
       = Inl AttributeError"
  using rattention_1d_no_cls_forward_fails [OF ex_rattention_init, of Inr ex_x ex_freqs]
    ex_rattention_qkv ex_rattention_scores ex_rattention_init
  by blast

lemma ra_two_flags_init:
  "rattention_init 2 1 ex_qkv ex_proj (Some 1) True 1 (Some 4) True True False = Inr ra_two_flags"
  by (simp add: rattention_init_def rattention_init_mask_def casual_mask_2d_4 Let_def
        mask_tensor_def ra_two_flags_def)

lemma ra_two_flags_qkv:
  "rattention_qkv ra_two_flags ex_x4 ex_freqs4 =
     Inr (\<lparr>shape = [1, 1, 4, 2], elems = [1, 2, - 4, 3, 0, 1, 0, 1]\<rparr>,
          \<lparr>shape = [1, 1, 4, 2], elems = [3, 4, - 8, 7, 1, 2, 0, 1]\<rparr>,
          \<lparr>shape = [1, 1, 4, 2], elems = [3, 6, 9, 12, 0, 3, 3, 0]\<rparr>)"
  by code_simp

lemma ra_two_flags_scores:
  "rattention_scores ra_two_flags \<lparr>shape = [1, 1, 4, 2], elems = [1, 2, - 4, 3, 0, 1, 0, 1]\<rparr>
      \<lparr>shape = [1, 1, 4, 2], elems = [3, 4, - 8, 7, 1, 2, 0, 1]\<rparr> =
     Inr \<lparr>shape = [1, 1, 4, 4], elems = [11, 6, 5, 2, 0, 53, 2, 3, 4, 7, 2, 1, 4, 7, 2, 1]\<rparr>"
  by code_simp

lemma ra_two_flags_masked:
  "rattention_add_mask ra_two_flags
      \<lparr>shape = [1, 1, 4, 4], elems = [11, 6, 5, 2, 0, 53, 2, 3, 4, 7, 2, 1, 4, 7, 2, 1]\<rparr> =
     Inr \<lparr>shape = [1, 1, 4, 4], elems =
         [Fin 11, NegInf, NegInf, NegInf, Fin 0, Fin 53, NegInf, NegInf,
          Fin 4, NegInf, Fin 2, NegInf, Fin 4, Fin 7, Fin 2, Fin 1]\<rparr>"
  by code_simp

lemma ra_two_flags_output:
  "\<not> isl (rattention_output ra_two_flags [1, 4, 2]
      \<lparr>shape = [1, 1, 4, 4], elems =
         [Fin 11, NegInf, NegInf, NegInf, Fin 0, Fin 53, NegInf, NegInf,
          Fin 4, NegInf, Fin 2, NegInf, Fin 4, Fin 7, Fin 2, Fin 1]\<rparr>
      \<lparr>shape = [1, 1, 4, 2], elems = [3, 6, 9, 12, 0, 3, 3, 0]\<rparr>)"
  by (simp add: rattention_output_def matmul_def softmax_last_def shape_tab ndim_def tmap_def
        bshape_def reshape_def numel_def transpose_dims_def shape_permute linear_apply_def
        ra_two_flags_def ex_proj_def Let_def upt_rec)

lemma ra_two_flags_forward: "\<not> isl (rattention_forward Inr ra_two_flags ex_x4 ex_freqs4)"
proof -
  have s: "shape ex_x4 = [1, 4, 2]" by (simp add: ex_x4_def)
  have f: "ra_enable_rpe ra_two_flags" by (simp add: ra_two_flags_def)
  obtain y where "rattention_output ra_two_flags [1, 4, 2]
      \<lparr>shape = [1, 1, 4, 4], elems =
         [Fin 11, NegInf, NegInf, NegInf, Fin 0, Fin 53, NegInf, NegInf,
          Fin 4, NegInf, Fin 2, NegInf, Fin 4, Fin 7, Fin 2, Fin 1]\<rparr>
      \<lparr>shape = [1, 1, 4, 2], elems = [3, 6, 9, 12, 0, 3, 3, 0]\<rparr> = Inr y"
    using ra_two_flags_output by (cases "rattention_output ra_two_flags [1, 4, 2]
      \<lparr>shape = [1, 1, 4, 4], elems =
         [Fin 11, NegInf, NegInf, NegInf, Fin 0, Fin 53, NegInf, NegInf,
          Fin 4, NegInf, Fin 2, NegInf, Fin 4, Fin 7, Fin 2, Fin 1]\<rparr>
      \<lparr>shape = [1, 1, 4, 2], elems = [3, 6, 9, 12, 0, 3, 3, 0]\<rparr>") auto
  then show ?thesis
    by (simp add: rattention_forward_def f ra_two_flags_qkv ra_two_flags_scores
          ra_two_flags_masked s del: One_nat_def)
qed

text \<open>
  C9 as stated, with nothing said of \<open>casual_attn_2d\<close>, fails: constructed with
  \<open>casual_attn_1d=True\<close>, \<open>casual_attn_2d=True\<close> and \<open>use_cls_token=False\<close> the 2D branch is
  the one taken, it assigns \<open>casual_mask\<close>, and \<open>forward\<close> with \<open>enable_rpe=True\<close> adds that
  mask to the scores and returns.
\<close>

theorem rattention_both_flags_no_cls_forward_returns:
  "rattention_init 2 1 ex_qkv ex_proj (Some 1) True 1 (Some 4) True True False = Inr ra_two_flags
   \<and> ra_casual_attn_1d ra_two_flags \<and> ra_enable_rpe ra_two_flags
   \<and> ra_casual_mask ra_two_flags =
       Some \<lparr>shape = [4, 4], elems =
         [Fin 0, NegInf, NegInf, NegInf, Fin 0, Fin 0, NegInf, NegInf,
          Fin 0, NegInf, Fin 0, NegInf, Fin 0, Fin 0, Fin 0, Fin 0]\<rparr>
   \<and> rattention_add_mask ra_two_flags
        \<lparr>shape = [1, 1, 4, 4], elems = [11, 6, 5, 2, 0, 53, 2, 3, 4, 7, 2, 1, 4, 7, 2, 1]\<rparr> =
       Inr \<lparr>shape = [1, 1, 4, 4], elems =
         [Fin 11, NegInf, NegInf, NegInf, Fin 0, Fin 53, NegInf, NegInf,
          Fin 4, NegInf, Fin 2, NegInf, Fin 4, Fin 7, Fin 2, Fin 1]\<rparr>
   \<and> \<not> isl (rattention_forward Inr ra_two_flags ex_x4 ex_freqs4)"
  using ra_two_flags_init ra_two_flags_masked ra_two_flags_forward
  by (simp add: ra_two_flags_def)

section \<open>Properties of the rotary application\<close>






lemma enumerate_map_length: "length (map f (enumerate n xs)) = length xs"
  by simp







lemma ravel_snoc:
  "length s = length i \<Longrightarrow> ravel (s @ [d]) (i @ [j]) = ravel s i * d + j"
  by (induction s i rule: ravel.induct) (auto simp: algebra_simps)





















section \<open>Properties of the cached tables\<close>

text \<open>
  C10. When \<open>rpe_dim = int(dim // num_heads * rpe_ratio)\<close> is 0, as it is for
  \<open>rpe_ratio = 0\<close>, the first \<open>forward\<close> of a \<open>GSAttention\<close> takes the \<open>else\<close> branch of the
  lazy build with \<open>q_freqs_cis\<close> still \<open>None\<close> and raises on \<open>.shape\<close>. (The statements
  before it must not raise: \<open>sr_ratio\<close> is not 0, and \<open>H\<close> is not 0 under \<open>auto_scale\<close>.)
\<close>

theorem gsa_zero_rpe_dim_first_forward_fails:
  assumes "gsattention_init dm num_heads sr_ratio rpe_ratio use_cls_token auto_scale use_ntk = Inr m"
    and "py_int (real (dm div num_heads) * rpe_ratio) = 0"
    and "0 < sr_ratio" and "auto_scale \<longrightarrow> 0 < H"
  shows "gsa_cache_step m N H W base_size = Inl AttributeError"
proof -
  from assms(1) have nh: "num_heads \<noteq> 0"
    and m: "m = \<lparr>gs_dim = dm, gs_num_heads = num_heads, gs_sr_ratio = sr_ratio,
                 gs_rpe_ratio = rpe_ratio, gs_use_cls_token = use_cls_token,
                 gs_auto_scale = auto_scale, gs_use_ntk = use_ntk,
                 gs_q_freqs_cis = None, gs_k_freqs_cis = None\<rparr>"
    by (auto simp: gsattention_init_def split: if_splits)
  have r: "rpe_dim_of (gs_dim m) (gs_num_heads m) (gs_rpe_ratio m) = Inr 0"
    using nh assms(2) by (simp add: m rpe_dim_of_def)
  have n: "gsa_N_reduce H W (gs_sr_ratio m) = Inr (H * W div sr_ratio div sr_ratio)"
    using assms(3) by (simp add: m gsa_N_reduce_def)
  have s: "\<exists>scale theta. gsa_scale_theta m H base_size = Inr (scale, theta)"
    using assms(4) by (auto simp: m gsa_scale_theta_def split: option.splits)
  have q: "gsa_q_step m 0 N W theta scale = Inl AttributeError" for theta scale
    by (simp add: m gsa_q_step_def)
  from s obtain scale theta where "gsa_scale_theta m H base_size = Inr (scale, theta)" by blast
  then show ?thesis by (simp add: gsa_cache_step_def n r q)
qed

theorem gsa_zero_rpe_dim_first_forward_fails_witness:
  "gsattention_init 64 8 2 0 False False None =
     Inr \<lparr>gs_dim = 64, gs_num_heads = 8, gs_sr_ratio = 2, gs_rpe_ratio = 0,
          gs_use_cls_token = False, gs_auto_scale = False, gs_use_ntk = None,
          gs_q_freqs_cis = None, gs_k_freqs_cis = None\<rparr>
   \<and> py_int (real (64 div 8) * 0) = 0 \<and> (0::nat) < 2
   \<and> gsa_cache_step
        \<lparr>gs_dim = 64, gs_num_heads = 8, gs_sr_ratio = 2, gs_rpe_ratio = 0,
         gs_use_cls_token = False, gs_auto_scale = False, gs_use_ntk = None,
         gs_q_freqs_cis = None, gs_k_freqs_cis = None\<rparr> 16 4 4 14 = Inl AttributeError"
proof -
  have i: "gsattention_init 64 8 2 0 False False None =
     Inr \<lparr>gs_dim = 64, gs_num_heads = 8, gs_sr_ratio = 2, gs_rpe_ratio = 0,
          gs_use_cls_token = False, gs_auto_scale = False, gs_use_ntk = None,
          gs_q_freqs_cis = None, gs_k_freqs_cis = None\<rparr>"
    by (simp add: gsattention_init_def)
  have z: "py_int (real (64 div 8) * 0) = 0" by (simp add: py_int_def)
  have s: "(0::nat) < 2" by simp
  have a: "False \<longrightarrow> (0::nat) < 4" by simp
  from gsa_zero_rpe_dim_first_forward_fails [OF i z s a, of 16 4 14] i z s
  show ?thesis by simp
qed

lemma interleave_xy_rows:
  "interleave_xy x_cis y_cis = Inr t \<Longrightarrow> length t = min (length x_cis) (length y_cis)"
  by (auto simp: interleave_xy_def split: if_splits)

lemma flat_patch_pos_of_Nil_iff:
  "flat_patch_pos_of use_cls endn = [] \<longleftrightarrow> \<not> use_cls \<and> endn = 0"
  by (simp add: flat_patch_pos_of_def)

lemma precompute_freqs_cis_2d_rows:
  assumes "precompute_freqs_cis_2d rdim endn theta scale use_cls cls_pos = Inr t"
  shows "length t = (if use_cls then endn + 1 else endn)"
  using assms unfolding precompute_freqs_cis_2d_def Let_def
  by (auto split: if_splits dest!: interleave_xy_rows
        simp: outer_polar_length flat_patch_pos_of_length flat_patch_pos_of_Nil_iff)

lemma precompute_freqs_cis_2d_general_rows:
  assumes "precompute_freqs_cis_2d_general rdim endn step W bias theta scale use_cls = Inr t"
  shows "length t = (if use_cls then endn + 1 else endn)"
  using assms unfolding precompute_freqs_cis_2d_general_def Let_def
  by (auto split: if_splits dest!: interleave_xy_rows
        simp: outer_polar_length flat_patch_pos_of_length flat_patch_pos_of_Nil_iff)

lemma with_dim_Inr: "with_dim d f = Inr t \<Longrightarrow> f (nat d) = Inr t"
  by (simp add: with_dim_def split: if_splits)

lemma mhsa_build_rows:
  assumes "mhsa_build m N = Inr m'" and "\<not> mh_use_cls_token m"
  shows "\<exists>t. mh_freqs_cis m' = Some t \<and> length t = N"
proof -
  from assms(1) obtain d t where "with_dim d (\<lambda>d. precompute_freqs_cis_2d d N 10000 1 (mh_use_cls_token m) (-1)) = Inr t"
    and m': "m' = m\<lparr>mh_freqs_cis := Some t\<rparr>"
    by (auto simp: mhsa_build_def split: sum.splits)
  then have "precompute_freqs_cis_2d (nat d) N 10000 1 (mh_use_cls_token m) (-1) = Inr t"
    by (auto dest: with_dim_Inr)
  then have "length t = N" using assms(2) by (auto dest: precompute_freqs_cis_2d_rows)
  then show ?thesis using m' by simp
qed

lemma mhsa_cache_step_rows:
  assumes "mhsa_cache_step m N = Inr m'" and "\<not> mh_use_cls_token m"
  shows "\<exists>t. mh_freqs_cis m' = Some t \<and> length t = N"
  using assms mhsa_build_rows [of m N m']
  by (auto simp: mhsa_cache_step_def split: option.splits if_splits)

lemma gsa_q_table_rows:
  assumes "gsa_q_table m rpe_dim N W theta scale = Inr t" and "\<not> gs_use_cls_token m"
  shows "length t = N"
  using assms
  by (auto simp: gsa_q_table_def dest!: with_dim_Inr precompute_freqs_cis_2d_general_rows)

lemma gsa_q_step_rows:
  assumes "gsa_q_step m rpe_dim N W theta scale = Inr m'" and "\<not> gs_use_cls_token m"
  shows "\<exists>t. gs_q_freqs_cis m' = Some t \<and> length t = N"
    and "gs_use_cls_token m' = gs_use_cls_token m" and "gs_k_freqs_cis m' = gs_k_freqs_cis m"
    and "gs_sr_ratio m' = gs_sr_ratio m"
  using assms gsa_q_table_rows [of m rpe_dim N W theta scale]
  by (auto simp: gsa_q_step_def split: if_splits sum.splits option.splits)

lemma gsa_q_step_kept:
  assumes "gs_q_freqs_cis m = Some t" and "length t = N"
  shows "gsa_q_step m rpe_dim N W theta scale = Inr m"
  using assms by (simp add: gsa_q_step_def)

lemma gsa_cache_step_q_rows:
  assumes "gsa_cache_step m N H W base_size = Inr m'" and "\<not> gs_use_cls_token m"
  shows "\<exists>t. gs_q_freqs_cis m' = Some t \<and> length t = N"
proof -
  from assms(1) obtain N_reduce rpe_dim scale theta m1
    where q: "gsa_q_step m rpe_dim N W theta scale = Inr m1"
      and k: "gsa_k_step m1 rpe_dim N N_reduce W scale = Inr m'"
    by (auto simp: gsa_cache_step_def split: sum.splits)
  from k have "gs_q_freqs_cis m' = gs_q_freqs_cis m1"
    by (auto simp: gsa_k_step_def split: if_splits sum.splits option.splits)
  then show ?thesis using gsa_q_step_rows(1) [OF q assms(2)] by simp
qed

lemma ga_cache_step_kept:
  assumes "ga_freqs_cis m = Some t" and "length t = N"
  shows "ga_cache_step m N = Inr m"
  using assms by (simp add: ga_cache_step_def)

lemma mhsa_cache_step_kept:
  assumes "mh_freqs_cis m = Some t" and "length t = N"
  shows "mhsa_cache_step m N = Inr m"
  using assms by (simp add: mhsa_cache_step_def)

lemma rattention_forward_keeps_module:
  "rattention_forward super_forward m x freqs_cis = Inr (m', y) \<Longrightarrow> m' = m"
  by (auto simp: rattention_forward_def andthen_Inr_iff split: if_splits)
lemma rope_freqs_4_4: "rope_freqs 4 4 10000 = [1]"
  by (simp add: rope_freqs_def arange_step_def)

lemma py_isqrt_4: "py_isqrt 4 = 2"
  by (simp add: py_isqrt_def py_int_def)

lemma upt4: "[0..<4] = [0, 1, 2, 3]"
  by (simp add: upt_rec)

lemma general_W4: "precompute_freqs_cis_2d_general 4 4 1 4 0 10000 1 False =
   Inr [[1, 1], [cis 1, 1], [cis 2, 1], [cis 3, 1]]"
  by (simp add: precompute_freqs_cis_2d_general_def flat_patch_pos_of_def rope_freqs_4_4
        outer_polar_def interleave_xy_def upt4)

lemma general_W2: "precompute_freqs_cis_2d_general 4 4 1 2 0 10000 1 False =
   Inr [[1, 1], [cis 1, 1], [1, cis 1], [cis 1, cis 1]]"
  by (simp add: precompute_freqs_cis_2d_general_def flat_patch_pos_of_def rope_freqs_4_4
        outer_polar_def interleave_xy_def upt4)

lemma cis_2_neq_1: "cis 2 \<noteq> 1"
proof
  assume "cis 2 = 1"
  then have "Re (cis 2) = Re 1" by simp
  then have "cos (2::real) = 1" by simp
  then show False using cos_two_less_zero by simp
qed

lemma plain_2d_4: "precompute_freqs_cis_2d 4 4 10000 1 False (-1) =
   Inr [[1, 1], [cis 1, 1], [1, cis 1], [cis 1, cis 1]]"
  by (simp add: precompute_freqs_cis_2d_def flat_patch_pos_of_def rope_freqs_4_4 py_isqrt_4
        outer_polar_def interleave_xy_def upt4)

lemma gsa_ex_first_call:
  "gsa_cache_step gsa_ex 4 1 4 14 =
     Inr (gsa_ex\<lparr>gs_q_freqs_cis := Some [[1, 1], [cis 1, 1], [cis 2, 1], [cis 3, 1]],
                gs_k_freqs_cis := Some [[1, 1], [cis 1, 1], [cis 2, 1], [cis 3, 1]]\<rparr>)"
  by (simp add: gsa_cache_step_def gsa_N_reduce_def rpe_dim_of_def py_int_def gsa_scale_theta_def
        gsa_q_step_def gsa_k_step_def gsa_q_table_def gsa_k_table_def with_dim_def general_W4
        gsa_ex_def del: One_nat_def)

lemma gsa_ex_second_call:
  "gsa_cache_step
     (gsa_ex\<lparr>gs_q_freqs_cis := Some [[1, 1], [cis 1, 1], [cis 2, 1], [cis 3, 1]],
             gs_k_freqs_cis := Some [[1, 1], [cis 1, 1], [cis 2, 1], [cis 3, 1]]\<rparr>) 4 2 2 14 =
     Inr (gsa_ex\<lparr>gs_q_freqs_cis := Some [[1, 1], [cis 1, 1], [cis 2, 1], [cis 3, 1]],
                gs_k_freqs_cis := Some [[1, 1], [cis 1, 1], [cis 2, 1], [cis 3, 1]]\<rparr>)"
  by (simp add: gsa_cache_step_def gsa_N_reduce_def rpe_dim_of_def py_int_def gsa_scale_theta_def
        gsa_q_step_def gsa_k_step_def gsa_ex_def)

lemma gsa_ex_fresh_table:
  "gsa_q_table
     (gsa_ex\<lparr>gs_q_freqs_cis := Some [[1, 1], [cis 1, 1], [cis 2, 1], [cis 3, 1]],
             gs_k_freqs_cis := Some [[1, 1], [cis 1, 1], [cis 2, 1], [cis 3, 1]]\<rparr>) 4 4 2 10000 1 =
     Inr [[1, 1], [cis 1, 1], [1, cis 1], [cis 1, cis 1]]"
  by (simp add: gsa_q_table_def with_dim_def general_W2 gsa_ex_def del: One_nat_def)

lemma mhsa_ex_first_call:
  "mhsa_cache_step mhsa_ex 4 =
     Inr (mhsa_ex\<lparr>mh_freqs_cis := Some [[1, 1], [cis 1, 1], [1, cis 1], [cis 1, cis 1]]\<rparr>)"
  by (simp add: mhsa_cache_step_def mhsa_build_def rpe_dim_of_def py_int_def with_dim_def
        plain_2d_4 mhsa_ex_def)

lemma gsa_ex_fresh_call:
  "gsa_cache_step gsa_ex 4 2 2 14 =
     Inr (gsa_ex\<lparr>gs_q_freqs_cis := Some [[1, 1], [cis 1, 1], [1, cis 1], [cis 1, cis 1]],
                gs_k_freqs_cis := Some [[1, 1], [cis 1, 1], [1, cis 1], [cis 1, cis 1]]\<rparr>)"
  by (simp add: gsa_cache_step_def gsa_N_reduce_def rpe_dim_of_def py_int_def gsa_scale_theta_def
        gsa_q_step_def gsa_k_step_def gsa_q_table_def gsa_k_table_def with_dim_def general_W2
        gsa_ex_def del: One_nat_def)

text \<open>
  C6. \<open>GSAttention.forward\<close> builds its two tables from the grid width \<open>W\<close> (lines 629 and
  635) but tests the cached ones against the token count alone (lines 631 and 637), so the
  tables applied need not be those of the current grid. A module called on a 1 by 4 grid
  builds the tables of that grid; called next on a 2 by 2 grid it sees the same token count,
  4, and keeps them, where the same module called first on the 2 by 2 grid builds other
  tables: they differ in row 2, \<open>cis 2\<close> against \<open>1\<close>.
\<close>

theorem gsa_stale_table_after_grid_change:
  "gsa_cache_step gsa_ex 4 1 4 14 =
     Inr (gsa_ex\<lparr>gs_q_freqs_cis := Some [[1, 1], [cis 1, 1], [cis 2, 1], [cis 3, 1]],
                gs_k_freqs_cis := Some [[1, 1], [cis 1, 1], [cis 2, 1], [cis 3, 1]]\<rparr>)
   \<and> gsa_cache_step
        (gsa_ex\<lparr>gs_q_freqs_cis := Some [[1, 1], [cis 1, 1], [cis 2, 1], [cis 3, 1]],
                gs_k_freqs_cis := Some [[1, 1], [cis 1, 1], [cis 2, 1], [cis 3, 1]]\<rparr>) 4 2 2 14 =
     Inr (gsa_ex\<lparr>gs_q_freqs_cis := Some [[1, 1], [cis 1, 1], [cis 2, 1], [cis 3, 1]],
                gs_k_freqs_cis := Some [[1, 1], [cis 1, 1], [cis 2, 1], [cis 3, 1]]\<rparr>)
   \<and> gsa_cache_step gsa_ex 4 2 2 14 =
     Inr (gsa_ex\<lparr>gs_q_freqs_cis := Some [[1, 1], [cis 1, 1], [1, cis 1], [cis 1, cis 1]],
                gs_k_freqs_cis := Some [[1, 1], [cis 1, 1], [1, cis 1], [cis 1, cis 1]]\<rparr>)
   \<and> gsa_q_table
        (gsa_ex\<lparr>gs_q_freqs_cis := Some [[1, 1], [cis 1, 1], [cis 2, 1], [cis 3, 1]],
                gs_k_freqs_cis := Some [[1, 1], [cis 1, 1], [cis 2, 1], [cis 3, 1]]\<rparr>) 4 4 2 10000 1 =
     Inr [[1, 1], [cis 1, 1], [1, cis 1], [cis 1, cis 1]]
   \<and> [[1, 1], [cis 1, 1], [cis 2, 1], [cis 3, 1]] \<noteq> [[1, 1], [cis 1, 1], [1, cis 1], [cis 1, cis 1]]"
  using gsa_ex_first_call gsa_ex_second_call gsa_ex_fresh_call gsa_ex_fresh_table cis_2_neq_1
  by simp

section \<open>Properties of GQA\<close>

lemma upt_numeral_eval: "[0..<2] = [0, 1]" "[0..<1] = [0]"
  by (simp_all add: upt_rec)

lemma softmax_causal_2:
  "softmax_last \<lparr>shape = [1, 1, 2, 2], elems = [Fin 0, NegInf, Fin 0, Fin 0]\<rparr> =
     \<lparr>shape = [1, 1, 2, 2], elems = [1, 0, 1 / 2, 1 / 2]\<rparr>"
  by (simp add: softmax_last_def tab_def tget_def upt_numeral_eval)

lemma softmax_full_2:
  "softmax_last \<lparr>shape = [1, 1, 2, 2], elems = [Fin 0, Fin 0, Fin 0, Fin 0]\<rparr> =
     \<lparr>shape = [1, 1, 2, 2], elems = [1 / 2, 1 / 2, 1 / 2, 1 / 2]\<rparr>"
  by (simp add: softmax_last_def tab_def tget_def upt_numeral_eval)

lemma sd_scores:
  "matmul sd_q (transpose_dims 2 3 sd_k) = Inr \<lparr>shape = [1, 1, 2, 2], elems = [0, 0, 0, 0]\<rparr>"
  by code_simp

lemma sd_scores_flash:
  "matmul (transpose_dims 1 2 (transpose_dims 1 2 sd_q))
     (transpose_dims 2 3
        (tab [1, 1, 2, 1]
           (\<lambda>idx. tget (transpose_dims 1 2 sd_k) [idx ! 0, idx ! 2, idx ! 1, idx ! 3])))
     = Inr \<lparr>shape = [1, 1, 2, 2], elems = [0, 0, 0, 0]\<rparr>"
  by code_simp

lemma sd_bias_causal:
  "broadcast2 xadd \<lparr>shape = [1, 1, 2, 2], elems = [Fin 0, Fin 0, Fin 0, Fin 0]\<rparr> (causal_bias True 2 2)
     = Inr \<lparr>shape = [1, 1, 2, 2], elems = [Fin 0, NegInf, Fin 0, Fin 0]\<rparr>"
  by code_simp

lemma sd_bias_flash:
  "broadcast2 xadd \<lparr>shape = [1, 1, 2, 2], elems = [Fin 0, Fin 0, Fin 0, Fin 0]\<rparr>
     (tab [2, 2] (\<lambda>idx. Fin 0))
     = Inr \<lparr>shape = [1, 1, 2, 2], elems = [Fin 0, Fin 0, Fin 0, Fin 0]\<rparr>"
  by code_simp

lemma sd_out_causal:
  "andthen (matmul \<lparr>shape = [1, 1, 2, 2], elems = [1, 0, 1 / 2, 1 / 2]\<rparr> sd_v)
      (\<lambda>y. Inr (transpose_dims 1 2 y)) = Inr \<lparr>shape = [1, 2, 1, 1], elems = [1, 2]\<rparr>"
  by code_simp

lemma sd_out_flash:
  "andthen (matmul \<lparr>shape = [1, 1, 2, 2], elems = [1 / 2, 1 / 2, 1 / 2, 1 / 2]\<rparr>
               (tab [1, 1, 2, 1]
                 (\<lambda>idx. tget (transpose_dims 1 2 sd_v) [idx ! 0, idx ! 2, idx ! 1, idx ! 3])))
      (\<lambda>y. Inr (transpose_dims 1 2 y)) = Inr \<lparr>shape = [1, 2, 1, 1], elems = [2, 2]\<rparr>"
  by code_simp

lemma sd_shapes:
  "shape (transpose_dims 1 2 sd_q) = [1, 2, 1, 1]" "shape (transpose_dims 1 2 sd_k) = [1, 2, 1, 1]"
  "shape (transpose_dims 1 2 sd_v) = [1, 2, 1, 1]"
  by code_simp+

lemma reference_path_value:
  "gqa_scaled_dot_product_attention gqa_ex False True True sd_q sd_k sd_v None =
     Inr \<lparr>shape = [1, 2, 1, 1], elems = [1, 2]\<rparr>"
proof -
  have s: "gq_head_dim gqa_ex = 1" by (simp add: gqa_ex_def)
  have n: "ndim sd_q = 4" "ndim sd_k = 4" "shape sd_q ! 2 = 2" "shape sd_k ! 2 = 2"
    by (simp_all add: ndim_def sd_q_def sd_k_def)
  show ?thesis
    unfolding gqa_scaled_dot_product_attention_def F_scaled_dot_product_attention_def
      attention_core_def Let_def s
    using sd_out_causal
    by (simp add: n sd_scores tmap_def sd_bias_causal softmax_causal_2 del: One_nat_def)
qed

lemma fused_path_value:
  "gqa_scaled_dot_product_attention gqa_ex True True True sd_q sd_k sd_v None =
     Inr \<lparr>shape = [1, 2, 1, 1], elems = [2, 2]\<rparr>"
proof -
  have s: "gq_head_dim gqa_ex = 1" by (simp add: gqa_ex_def)
  show ?thesis
    unfolding gqa_scaled_dot_product_attention_def flash_attn_func_def
      attention_core_def Let_def s
    using sd_out_flash
    by (simp add: sd_shapes sd_scores_flash tmap_def sd_bias_flash softmax_full_2 ndim_def shape_tab
          del: One_nat_def)
qed

text \<open>
  C5. With flash attention available, no mask, a CUDA device and a half-precision dtype the
  fused path is taken, and on these queries, keys and values it returns the plain average of
  the two values for both tokens; the reference path, taken when flash attention is missing,
  masks causally (\<open>is_causal=mask is None\<close>) and returns the first value alone for token 0.
\<close>

theorem gqa_fused_path_differs_from_reference:
  "gqa_scaled_dot_product_attention gqa_ex True True True sd_q sd_k sd_v None =
     Inr \<lparr>shape = [1, 2, 1, 1], elems = [2, 2]\<rparr>
   \<and> gqa_scaled_dot_product_attention gqa_ex False True True sd_q sd_k sd_v None =
     Inr \<lparr>shape = [1, 2, 1, 1], elems = [1, 2]\<rparr>
   \<and> gqa_scaled_dot_product_attention gqa_ex True True True sd_q sd_k sd_v None
     \<noteq> gqa_scaled_dot_product_attention gqa_ex False True True sd_q sd_k sd_v None"
  by (simp add: fused_path_value reference_path_value)

lemma gqa_heads_single_group:
  assumes s: "shape qkv = [B, T, (nh + 2) * hs]"
    and m: "gq_num_heads m = nh" "gq_query_groups m = 1" "gq_head_dim m = hs"
    and i: "b < B" "h < nh" "t < T" "c < hs"
  shows "\<exists>q k v. gqa_heads m B T qkv = Inr (q, k, v)
           \<and> shape q = [B, nh, T, hs] \<and> shape k = [B, 1, T, hs] \<and> shape v = [B, 1, T, hs]
           \<and> tget q [b, h, t, c] = tget qkv [b, t, h * hs + c]
           \<and> tget k [b, 0, t, c] = tget qkv [b, t, nh * hs + c]
           \<and> tget v [b, 0, t, c] = tget qkv [b, t, (nh + 1) * hs + c]"
proof -
  define qkv5 where "qkv5 = \<lparr>shape = [B, T, 1, nh + 2, hs], elems = elems qkv\<rparr>"
  define p where "p = permute qkv5 [0, 2, 3, 1, 4]"
  define q5 where "q5 = narrow 2 0 nh p"
  define k5 where "k5 = narrow 2 nh 1 p"
  define v5 where "v5 = narrow 2 (nh + 1) 1 p"
  have pos: "0 < prod_list [B] * prod_list [T, hs]" using i by simp
  have r5: "reshape qkv [B, T, 1, nh + 2, hs] = Inr qkv5"
    unfolding qkv5_def by (rule reshape_Inr) (simp add: numel_def s)
  have sp: "shape p = [B, 1, nh + 2, T, hs]" by (simp add: p_def qkv5_def shape_permute)
  have rq: "reshape_infer q5 [B] [T, hs] = Inr \<lparr>shape = [B] @ [nh] @ [T, hs], elems = elems q5\<rparr>"
    using pos by (rule reshape_infer_Inr) (simp add: q5_def numel_narrow sp)
  have rk: "reshape_infer k5 [B] [T, hs] = Inr \<lparr>shape = [B] @ [1] @ [T, hs], elems = elems k5\<rparr>"
    using pos by (rule reshape_infer_Inr) (simp add: k5_def numel_narrow sp)
  have rv: "reshape_infer v5 [B] [T, hs] = Inr \<lparr>shape = [B] @ [1] @ [T, hs], elems = elems v5\<rparr>"
    using pos by (rule reshape_infer_Inr) (simp add: v5_def numel_narrow sp)
  have heads: "gqa_heads m B T qkv =
      Inr (\<lparr>shape = [B, nh, T, hs], elems = elems q5\<rparr>,
           \<lparr>shape = [B, 1, T, hs], elems = elems k5\<rparr>,
           \<lparr>shape = [B, 1, T, hs], elems = elems v5\<rparr>)"
    using rq rk rv
    by (simp add: gqa_heads_def m r5 Let_def p_def [symmetric] q5_def [symmetric]
          k5_def [symmetric] v5_def [symmetric] del: One_nat_def add_2_eq_Suc add_2_eq_Suc')
  have src: "tget p [b, 0, j, t, c] = tget qkv [b, t, j * hs + c]" if "j < nh + 2" for j
  proof -
    have "tget p [b, 0, j, t, c] = tget qkv5 [b, t, 0, j, c]"
      unfolding p_def using i that by (subst tget_permute) (simp_all add: qkv5_def upt_5)
    also have "\<dots> = tget qkv [b, t, j * hs + c]"
      by (simp add: tget_def qkv5_def s algebra_simps)
    finally show ?thesis .
  qed
  have q: "elems q5 ! ravel [B, nh, T, hs] [b, h, t, c] = tget qkv [b, t, h * hs + c]"
  proof -
    have v: "valid_idx ((shape p)[2 := nh]) [b, 0, h, t, c]" using i by (simp add: sp)
    have "ravel [B, nh, T, hs] [b, h, t, c] = ravel ((shape p)[2 := nh]) [b, 0, h, t, c]"
      by (simp add: sp)
    then have "elems q5 ! ravel [B, nh, T, hs] [b, h, t, c] = tget p ([b, 0, h, t, c][2 := [b, 0, h, t, c] ! 2 + 0])"
      unfolding q5_def using elems_narrow_nth [OF v, of 0] by simp
    then show ?thesis using src [of h] i by simp
  qed
  have k: "elems k5 ! ravel [B, 1, T, hs] [b, 0, t, c] = tget qkv [b, t, nh * hs + c]"
  proof -
    have v: "valid_idx ((shape p)[2 := 1]) [b, 0, 0, t, c]" using i by (simp add: sp)
    have "ravel [B, 1, T, hs] [b, 0, t, c] = ravel ((shape p)[2 := 1]) [b, 0, 0, t, c]"
      by (simp add: sp)
    then have "elems k5 ! ravel [B, 1, T, hs] [b, 0, t, c] = tget p ([b, 0, 0, t, c][2 := [b, 0, 0, t, c] ! 2 + nh])"
      unfolding k5_def using elems_narrow_nth [OF v, of nh] by simp
    then show ?thesis using src [of nh] by simp
  qed
  have v: "elems v5 ! ravel [B, 1, T, hs] [b, 0, t, c] = tget qkv [b, t, (nh + 1) * hs + c]"
  proof -
    have v: "valid_idx ((shape p)[2 := 1]) [b, 0, 0, t, c]" using i by (simp add: sp)
    have "ravel [B, 1, T, hs] [b, 0, t, c] = ravel ((shape p)[2 := 1]) [b, 0, 0, t, c]"
      by (simp add: sp)
    then have "elems v5 ! ravel [B, 1, T, hs] [b, 0, t, c]
                 = tget p ([b, 0, 0, t, c][2 := [b, 0, 0, t, c] ! 2 + (nh + 1)])"
      unfolding v5_def using elems_narrow_nth [OF v, of "nh + 1"] by simp
    then show ?thesis using src [of "nh + 1"] by simp
  qed
  show ?thesis
    unfolding heads using q k v by (simp add: tget_def)
qed

lemma bidx_unit_dim2:
  assumes "b < B" "g < G" "t < T" "c < hs"
  shows "bidx [B, G, 1, T, hs] [b, g, j, t, c] = [b, g, 0, t, c]"
  using assms by (auto simp: bidx_def)

lemma expand_dim2:
  assumes "shape x = [B, G, 1, T, hs]"
  shows "expand x [B, G, P, T, hs] = Inr (tab [B, G, P, T, hs] (\<lambda>idx. tget x (bidx [B, G, 1, T, hs] idx)))"
  using assms by (simp add: expand_def ndim_def)

lemma ravel_group_split:
  assumes "h = g * P + j"
  shows "ravel [B, G * P, T, hs] [b, h, t, c] = ravel [B, G, P, T, hs] [b, g, j, t, c]"
  using assms by (simp add: algebra_simps)

lemma gqa_heads_groups:
  assumes s: "shape qkv = [B, T, (qg * P + 2 * qg) * hs]"
    and m: "gq_num_heads m = qg * P" "gq_query_groups m = qg" "gq_head_dim m = hs"
    and i: "b < B" "h < qg * P" "t < T" "c < hs" and g1: "1 < qg"
  shows "\<exists>q k v. gqa_heads m B T qkv = Inr (q, k, v)
           \<and> shape q = [B, qg * P, T, hs] \<and> shape k = [B, qg * P, T, hs]
           \<and> shape v = [B, qg * P, T, hs]
           \<and> tget q [b, h, t, c] = tget qkv [b, t, (h div P * (P + 2) + h mod P) * hs + c]
           \<and> tget k [b, h, t, c] = tget qkv [b, t, (h div P * (P + 2) + P) * hs + c]
           \<and> tget v [b, h, t, c] = tget qkv [b, t, (h div P * (P + 2) + (P + 1)) * hs + c]"
proof -
  define g where "g = h div P"
  define j where "j = h mod P"
  define qkv5 where "qkv5 = \<lparr>shape = [B, T, qg, P + 2, hs], elems = elems qkv\<rparr>"
  define p where "p = permute qkv5 [0, 2, 3, 1, 4]"
  define q5 where "q5 = narrow 2 0 P p"
  define k5 where "k5 = narrow 2 P 1 p"
  define v5 where "v5 = narrow 2 (P + 1) 1 p"
  define ke where "ke = tab [B, qg, P, T, hs] (\<lambda>idx. tget k5 (bidx [B, qg, 1, T, hs] idx))"
  define ve where "ve = tab [B, qg, P, T, hs] (\<lambda>idx. tget v5 (bidx [B, qg, 1, T, hs] idx))"
  have P0: "0 < P" using i(2) by (cases P) simp_all
  have gj: "g < qg" "j < P" "h = g * P + j"
    using i(2) P0 by (simp_all add: g_def j_def less_mult_imp_div_less)
  have pos: "0 < prod_list [B] * prod_list [T, hs]" using i by simp
  have d: "qg * P div qg = P" "qg \<noteq> 0" "qg \<noteq> 1" using g1 by simp_all
  have r5: "reshape qkv [B, T, qg, P + 2, hs] = Inr qkv5"
    unfolding qkv5_def by (rule reshape_Inr) (simp add: numel_def s algebra_simps)
  have sp: "shape p = [B, qg, P + 2, T, hs]" by (simp add: p_def qkv5_def shape_permute)
  have sk: "shape k5 = [B, qg, 1, T, hs]" "shape v5 = [B, qg, 1, T, hs]"
    by (simp_all add: k5_def v5_def shape_narrow sp)
  have ek: "expand k5 [B, qg, P, T, hs] = Inr ke" unfolding ke_def using sk(1) by (rule expand_dim2)
  have ev: "expand v5 [B, qg, P, T, hs] = Inr ve" unfolding ve_def using sk(2) by (rule expand_dim2)
  have rq: "reshape_infer q5 [B] [T, hs] = Inr \<lparr>shape = [B] @ [qg * P] @ [T, hs], elems = elems q5\<rparr>"
    using pos by (rule reshape_infer_Inr) (simp add: q5_def numel_narrow sp)
  have rk: "reshape_infer ke [B] [T, hs] = Inr \<lparr>shape = [B] @ [qg * P] @ [T, hs], elems = elems ke\<rparr>"
    using pos by (rule reshape_infer_Inr) (simp add: ke_def numel_tab)
  have rv: "reshape_infer ve [B] [T, hs] = Inr \<lparr>shape = [B] @ [qg * P] @ [T, hs], elems = elems ve\<rparr>"
    using pos by (rule reshape_infer_Inr) (simp add: ve_def numel_tab)
  have heads: "gqa_heads m B T qkv =
      Inr (\<lparr>shape = [B, qg * P, T, hs], elems = elems q5\<rparr>,
           \<lparr>shape = [B, qg * P, T, hs], elems = elems ke\<rparr>,
           \<lparr>shape = [B, qg * P, T, hs], elems = elems ve\<rparr>)"
    using rq rk rv
    by (simp add: gqa_heads_def m d r5 ek ev Let_def p_def [symmetric] q5_def [symmetric]
          k5_def [symmetric] v5_def [symmetric] del: One_nat_def add_2_eq_Suc add_2_eq_Suc')
  have src: "tget p [b, g, l, t, c] = tget qkv [b, t, (g * (P + 2) + l) * hs + c]" if "l < P + 2" for l
  proof -
    have "tget p [b, g, l, t, c] = tget qkv5 [b, t, g, l, c]"
      unfolding p_def using i gj that by (subst tget_permute) (simp_all add: qkv5_def upt_5)
    also have "\<dots> = tget qkv [b, t, (g * (P + 2) + l) * hs + c]"
      by (simp add: tget_def qkv5_def s algebra_simps)
    finally show ?thesis .
  qed
  have vq: "valid_idx ((shape p)[2 := P]) [b, g, j, t, c]" using i gj by (simp add: sp)
  have v1: "valid_idx ((shape p)[2 := 1]) [b, g, 0, t, c]" using i gj by (simp add: sp)
  have v2: "valid_idx [B, qg, P, T, hs] [b, g, j, t, c]" using i gj by simp
  have rav: "ravel [B, qg * P, T, hs] [b, h, t, c] = ravel [B, qg, P, T, hs] [b, g, j, t, c]"
    using gj(3) by (rule ravel_group_split)
  have rav': "ravel [B, qg * P, T, hs] [b, h, t, c] = ravel ((shape p)[2 := P]) [b, g, j, t, c]"
    using rav by (simp add: sp)
  have bi: "bidx [B, qg, 1, T, hs] [b, g, j, t, c] = [b, g, 0, t, c]"
    using i(1) gj(1) i(3,4) by (rule bidx_unit_dim2)
  have q: "elems q5 ! ravel [B, qg * P, T, hs] [b, h, t, c] = tget qkv [b, t, (g * (P + 2) + j) * hs + c]"
  proof -
    have "elems q5 ! ravel [B, qg * P, T, hs] [b, h, t, c] = tget p ([b, g, j, t, c][2 := [b, g, j, t, c] ! 2 + 0])"
      unfolding q5_def rav' using elems_narrow_nth [OF vq, of 0] by simp
    also have "[b, g, j, t, c][2 := [b, g, j, t, c] ! 2 + 0] = [b, g, j, t, c]" by simp
    also have "tget p [b, g, j, t, c] = tget qkv [b, t, (g * (P + 2) + j) * hs + c]"
      using gj(2) by (intro src) simp
    finally show ?thesis .
  qed
  have k: "elems ke ! ravel [B, qg * P, T, hs] [b, h, t, c] = tget qkv [b, t, (g * (P + 2) + P) * hs + c]"
  proof -
    have "elems ke ! ravel [B, qg * P, T, hs] [b, h, t, c] = tget k5 (bidx [B, qg, 1, T, hs] [b, g, j, t, c])"
      unfolding ke_def rav using v2 by (simp only: elems_tab_nth)
    also have "\<dots> = tget k5 [b, g, 0, t, c]" by (simp only: bi)
    also have "\<dots> = tget p ([b, g, 0, t, c][2 := [b, g, 0, t, c] ! 2 + P])"
      unfolding k5_def using v1 by (rule tget_narrow)
    also have "[b, g, 0, t, c][2 := [b, g, 0, t, c] ! 2 + P] = [b, g, P, t, c]" by simp
    also have "tget p [b, g, P, t, c] = tget qkv [b, t, (g * (P + 2) + P) * hs + c]"
      by (rule src) simp
    finally show ?thesis .
  qed
  have v: "elems ve ! ravel [B, qg * P, T, hs] [b, h, t, c]
             = tget qkv [b, t, (g * (P + 2) + (P + 1)) * hs + c]"
  proof -
    have "elems ve ! ravel [B, qg * P, T, hs] [b, h, t, c] = tget v5 (bidx [B, qg, 1, T, hs] [b, g, j, t, c])"
      unfolding ve_def rav using v2 by (simp only: elems_tab_nth)
    also have "\<dots> = tget v5 [b, g, 0, t, c]" by (simp only: bi)
    also have "\<dots> = tget p ([b, g, 0, t, c][2 := [b, g, 0, t, c] ! 2 + (P + 1)])"
      unfolding v5_def using v1 by (rule tget_narrow)
    also have "[b, g, 0, t, c][2 := [b, g, 0, t, c] ! 2 + (P + 1)] = [b, g, P + 1, t, c]" by simp
    also have "tget p [b, g, P + 1, t, c] = tget qkv [b, t, (g * (P + 2) + (P + 1)) * hs + c]"
      by (rule src) simp
    finally show ?thesis .
  qed
  show ?thesis
    unfolding heads using q k v by (simp add: tget_def g_def j_def)
qed

lemma two_heads_assembly:
  "gqa_heads gqa_two_heads 1 1 \<lparr>shape = [1, 1, 4], elems = [1, 2, 3, 4]\<rparr> =
     Inr (\<lparr>shape = [1, 2, 1, 1], elems = [1, 2]\<rparr>, \<lparr>shape = [1, 1, 1, 1], elems = [3]\<rparr>,
          \<lparr>shape = [1, 1, 1, 1], elems = [4]\<rparr>)"
  by code_simp

lemma one_head_qkv:
  "linear_apply (gq_qkv gqa_one_head) ex_x =
     Inr \<lparr>shape = [1, 2, 6], elems = [1, 2, 3, 4, 3, 6, 3, 4, 7, 8, 9, 12]\<rparr>"
  by code_simp

lemma one_head_heads:
  "gqa_heads gqa_one_head 1 2 \<lparr>shape = [1, 2, 6], elems = [1, 2, 3, 4, 3, 6, 3, 4, 7, 8, 9, 12]\<rparr> =
     Inr (\<lparr>shape = [1, 1, 2, 2], elems = [1, 2, 3, 4]\<rparr>, \<lparr>shape = [1, 1, 2, 2], elems = [3, 4, 7, 8]\<rparr>,
          \<lparr>shape = [1, 1, 2, 2], elems = [3, 6, 9, 12]\<rparr>)"
  by code_simp

lemma one_head_rope:
  "rope_prefix (gqa_rope_dim gqa_one_head) \<lparr>shape = [1, 1, 2, 2], elems = [1, 2, 3, 4]\<rparr>
     \<lparr>shape = [1, 1, 2, 2], elems = [3, 4, 7, 8]\<rparr> ex_freqs = Inl RuntimeError"
  by code_simp

lemma gqa_one_head_forward:
  "gqa_forward gqa_one_head False False False ex_x ex_freqs = Inl RuntimeError"
proof -
  have s: "shape ex_x = [1, 2, 2]" by (simp add: ex_x_def)
  show ?thesis
    by (simp add: gqa_forward_def s one_head_qkv one_head_heads one_head_rope del: One_nat_def)
qed

lemma ra_one_head_qkv:
  "rattention_qkv ra_one_head ex_x ex_freqs =
     Inr (\<lparr>shape = [1, 1, 2, 2], elems = [1, 2, - 4, 3]\<rparr>,
          \<lparr>shape = [1, 1, 2, 2], elems = [3, 4, - 8, 7]\<rparr>,
          \<lparr>shape = [1, 1, 2, 2], elems = [3, 6, 9, 12]\<rparr>)"
  by code_simp

lemma ra_one_head_scores:
  "rattention_scores ra_one_head \<lparr>shape = [1, 1, 2, 2], elems = [1, 2, - 4, 3]\<rparr>
     \<lparr>shape = [1, 1, 2, 2], elems = [3, 4, - 8, 7]\<rparr> =
     Inr \<lparr>shape = [1, 1, 2, 2], elems = [11, 6, 0, 53]\<rparr>"
  by code_simp

lemma ra_one_head_output:
  "\<not> isl (rattention_output ra_one_head [1, 2, 2]
            (tmap Fin \<lparr>shape = [1, 1, 2, 2], elems = [11, 6, 0, 53]\<rparr>)
            \<lparr>shape = [1, 1, 2, 2], elems = [3, 6, 9, 12]\<rparr>)"
  by (simp add: rattention_output_def matmul_def softmax_last_def shape_tab ndim_def tmap_def
        bshape_def reshape_def numel_def transpose_dims_def shape_permute linear_apply_def
        ra_one_head_def ex_proj_def Let_def upt_rec)

lemma ra_one_head_forward: "\<not> isl (rattention_forward Inr ra_one_head ex_x ex_freqs)"
proof -
  have s: "shape ex_x = [1, 2, 2]" by (simp add: ex_x_def)
  have f: "\<not> ra_casual_attn_2d ra_one_head" "\<not> ra_casual_attn_1d ra_one_head"
    "ra_enable_rpe ra_one_head" by (simp_all add: ra_one_head_def)
  obtain y where "rattention_output ra_one_head [1, 2, 2]
            (tmap Fin \<lparr>shape = [1, 1, 2, 2], elems = [11, 6, 0, 53]\<rparr>)
            \<lparr>shape = [1, 1, 2, 2], elems = [3, 6, 9, 12]\<rparr> = Inr y"
    using ra_one_head_output by (cases "rattention_output ra_one_head [1, 2, 2]
            (tmap Fin \<lparr>shape = [1, 1, 2, 2], elems = [11, 6, 0, 53]\<rparr>)
            \<lparr>shape = [1, 1, 2, 2], elems = [3, 6, 9, 12]\<rparr>") auto
  then show ?thesis
    by (simp add: rattention_forward_def f ra_one_head_qkv ra_one_head_scores
          rattention_add_mask_def s del: One_nat_def)
qed

text \<open>
  C3 as stated fails. With two heads and \<open>query_groups = 1\<close> the assembly yields two query
  heads but one key head and one value head, not two of each. And with one head, where
  \<open>GQA\<close> and \<open>RAttention\<close> can hold the same weights, \<open>GQA.forward\<close> raises on an input of
  two tokens (it hands \<open>reshape_for_broadcast\<close> the heads where \<open>RAttention\<close> hands it the
  tokens) while \<open>RAttention.forward\<close> returns.
\<close>

theorem gqa_one_group_is_not_multi_head:
  "gqa_heads gqa_two_heads 1 1 \<lparr>shape = [1, 1, 4], elems = [1, 2, 3, 4]\<rparr> =
     Inr (\<lparr>shape = [1, 2, 1, 1], elems = [1, 2]\<rparr>, \<lparr>shape = [1, 1, 1, 1], elems = [3]\<rparr>,
          \<lparr>shape = [1, 1, 1, 1], elems = [4]\<rparr>)
   \<and> gqa_forward gqa_one_head False False False ex_x ex_freqs = Inl RuntimeError
   \<and> \<not> isl (rattention_forward Inr ra_one_head ex_x ex_freqs)"
  using two_heads_assembly gqa_one_head_forward ra_one_head_forward by simp

lemma gqa_two_heads_fields:
  "gq_num_heads gqa_two_heads = 1 * 2" "gq_query_groups gqa_two_heads = 1"
  "gq_head_dim gqa_two_heads = 1"
  by (simp_all add: gqa_two_heads_def)

lemma gqa_four_heads_fields:
  "gq_num_heads gqa_four_heads = 2 * 2" "gq_query_groups gqa_four_heads = 2"
  "gq_head_dim gqa_four_heads = 1"
  by (simp_all add: gqa_four_heads_def)

lemma gqa_two_groups_fields:
  "gq_num_heads gqa_two_groups = 2 * 1" "gq_query_groups gqa_two_groups = 2"
  "gq_head_dim gqa_two_groups = 1"
  by (simp_all add: gqa_two_groups_def)

text \<open>
  C3, as the code has it. For every \<open>query_groups\<close> that divides \<open>num_heads\<close>, with
  \<open>q_per_kv = num_heads // query_groups\<close>, \<open>GQA.forward\<close> splits the projection of each token
  into \<open>query_groups\<close> blocks of \<open>q_per_kv + 2\<close> heads: the \<open>q_per_kv\<close> query heads of the
  group, then its key head, then its value head. Query head \<open>h\<close> is in group \<open>h div q_per_kv\<close>
  at place \<open>h mod q_per_kv\<close>, and attends the key and value head of its group. With
  \<open>query_groups = 1\<close> that is multi-query attention: \<open>k\<close> and \<open>v\<close> have one head, which all
  query heads share. With \<open>query_groups > 1\<close> the key and value head of a group are repeated
  for its \<open>q_per_kv\<close> query heads, and it is \<open>query_groups = num_heads\<close> (\<open>q_per_kv = 1\<close>)
  that gives every query head a key head and a value head of its own.
\<close>

theorem gqa_head_layout:
  assumes "gq_num_heads m = qg * q_per_kv" and "gq_query_groups m = qg" and "gq_head_dim m = hs"
    and "shape qkv = [B, T, (qg * q_per_kv + 2 * qg) * hs]"
    and "b < B" and "h < qg * q_per_kv" and "t < T" and "c < hs"
  shows "\<exists>q k v. gqa_heads m B T qkv = Inr (q, k, v)
           \<and> shape q = [B, qg * q_per_kv, T, hs]
           \<and> shape k = [B, if qg = 1 then 1 else qg * q_per_kv, T, hs]
           \<and> shape v = [B, if qg = 1 then 1 else qg * q_per_kv, T, hs]
           \<and> tget q [b, h, t, c]
               = tget qkv [b, t, (h div q_per_kv * (q_per_kv + 2) + h mod q_per_kv) * hs + c]
           \<and> tget k [b, if qg = 1 then 0 else h, t, c]
               = tget qkv [b, t, (h div q_per_kv * (q_per_kv + 2) + q_per_kv) * hs + c]
           \<and> tget v [b, if qg = 1 then 0 else h, t, c]
               = tget qkv [b, t, (h div q_per_kv * (q_per_kv + 2) + (q_per_kv + 1)) * hs + c]"
proof (cases "qg = 1")
  case True
  have s: "shape qkv = [B, T, (q_per_kv + 2) * hs]" using assms(4) True by simp
  have m: "gq_num_heads m = q_per_kv" "gq_query_groups m = 1" using assms(1,2) True by simp_all
  have h: "h < q_per_kv" using assms(6) True by simp
  from gqa_heads_single_group [OF s m assms(3) assms(5) h assms(7,8)]
  show ?thesis using True h by simp
next
  case False
  moreover have "qg \<noteq> 0" using assms(6) by (cases qg) simp_all
  ultimately have g1: "1 < qg" by simp
  from gqa_heads_groups [OF assms(4) assms(1,2,3) assms(5-8) g1]
  show ?thesis using False by simp
qed

theorem gqa_head_layout_witness:
  "(\<exists>q k v. gqa_heads gqa_two_heads 1 1 \<lparr>shape = [1, 1, 4], elems = [1, 2, 3, 4]\<rparr> = Inr (q, k, v)
        \<and> shape q = [1, 2, 1, 1] \<and> shape k = [1, 1, 1, 1] \<and> shape v = [1, 1, 1, 1]
        \<and> tget q [0, 1, 0, 0] = 2 \<and> tget k [0, 0, 0, 0] = 3 \<and> tget v [0, 0, 0, 0] = 4)
   \<and> (\<exists>q k v. gqa_heads gqa_four_heads 1 2
          \<lparr>shape = [1, 2, 8], elems = [1, 2, 3, 4, 5, 6, 7, 8, 11, 12, 13, 14, 15, 16, 17, 18]\<rparr>
            = Inr (q, k, v)
        \<and> shape q = [1, 4, 2, 1] \<and> shape k = [1, 4, 2, 1] \<and> shape v = [1, 4, 2, 1]
        \<and> tget q [0, 3, 1, 0] = 16 \<and> tget k [0, 3, 1, 0] = 17 \<and> tget v [0, 3, 1, 0] = 18)
   \<and> (\<exists>q k v. gqa_heads gqa_four_heads 1 2
          \<lparr>shape = [1, 2, 8], elems = [1, 2, 3, 4, 5, 6, 7, 8, 11, 12, 13, 14, 15, 16, 17, 18]\<rparr>
            = Inr (q, k, v)
        \<and> shape q = [1, 4, 2, 1] \<and> shape k = [1, 4, 2, 1] \<and> shape v = [1, 4, 2, 1]
        \<and> tget q [0, 1, 0, 0] = 2 \<and> tget k [0, 1, 0, 0] = 3 \<and> tget v [0, 1, 0, 0] = 4)
   \<and> (\<exists>q k v. gqa_heads gqa_two_groups 1 1 \<lparr>shape = [1, 1, 6], elems = [1, 2, 3, 4, 5, 6]\<rparr>
            = Inr (q, k, v)
        \<and> shape q = [1, 2, 1, 1] \<and> shape k = [1, 2, 1, 1] \<and> shape v = [1, 2, 1, 1]
        \<and> tget q [0, 1, 0, 0] = 4 \<and> tget k [0, 1, 0, 0] = 5 \<and> tget v [0, 1, 0, 0] = 6)"
proof -
  have s1: "shape \<lparr>shape = [1, 1, 4], elems = [1, 2, 3, 4 :: real]\<rparr> = [1, 1, (1 * 2 + 2 * 1) * 1]"
    by simp
  have s2: "shape \<lparr>shape = [1, 2, 8],
                  elems = [1, 2, 3, 4, 5, 6, 7, 8, 11, 12, 13, 14, 15, 16, 17, 18 :: real]\<rparr>
              = [1, 2, (2 * 2 + 2 * 2) * 1]"
    by simp
  have s3: "shape \<lparr>shape = [1, 1, 6], elems = [1, 2, 3, 4, 5, 6 :: real]\<rparr> = [1, 1, (2 * 1 + 2 * 2) * 1]"
    by simp
  have i: "(0::nat) < 1" "(1::nat) < 1 * 2" "(3::nat) < 2 * 2" "(1::nat) < 2" "(1::nat) < 2 * 2"
    "(1::nat) < 2 * 1"
    by simp_all
  have a: "\<exists>q k v. gqa_heads gqa_two_heads 1 1 \<lparr>shape = [1, 1, 4], elems = [1, 2, 3, 4]\<rparr> = Inr (q, k, v)
        \<and> shape q = [1, 2, 1, 1] \<and> shape k = [1, 1, 1, 1] \<and> shape v = [1, 1, 1, 1]
        \<and> tget q [0, 1, 0, 0] = 2 \<and> tget k [0, 0, 0, 0] = 3 \<and> tget v [0, 0, 0, 0] = 4"
    using gqa_head_layout [OF gqa_two_heads_fields s1 i(1) i(2) i(1) i(1)]
    by (simp add: tget_def del: One_nat_def)
  have b: "\<exists>q k v. gqa_heads gqa_four_heads 1 2
          \<lparr>shape = [1, 2, 8], elems = [1, 2, 3, 4, 5, 6, 7, 8, 11, 12, 13, 14, 15, 16, 17, 18]\<rparr>
            = Inr (q, k, v)
        \<and> shape q = [1, 4, 2, 1] \<and> shape k = [1, 4, 2, 1] \<and> shape v = [1, 4, 2, 1]
        \<and> tget q [0, 3, 1, 0] = 16 \<and> tget k [0, 3, 1, 0] = 17 \<and> tget v [0, 3, 1, 0] = 18"
    using gqa_head_layout [OF gqa_four_heads_fields s2 i(1) i(3) i(4) i(1)]
    by (simp add: tget_def del: One_nat_def)
  have c: "\<exists>q k v. gqa_heads gqa_four_heads 1 2
          \<lparr>shape = [1, 2, 8], elems = [1, 2, 3, 4, 5, 6, 7, 8, 11, 12, 13, 14, 15, 16, 17, 18]\<rparr>
            = Inr (q, k, v)
        \<and> shape q = [1, 4, 2, 1] \<and> shape k = [1, 4, 2, 1] \<and> shape v = [1, 4, 2, 1]
        \<and> tget q [0, 1, 0, 0] = 2 \<and> tget k [0, 1, 0, 0] = 3 \<and> tget v [0, 1, 0, 0] = 4"
    using gqa_head_layout [OF gqa_four_heads_fields s2 i(1) i(5) _ i(1), of 0]
    by (simp add: tget_def del: One_nat_def)
  have d: "\<exists>q k v. gqa_heads gqa_two_groups 1 1 \<lparr>shape = [1, 1, 6], elems = [1, 2, 3, 4, 5, 6]\<rparr>
            = Inr (q, k, v)
        \<and> shape q = [1, 2, 1, 1] \<and> shape k = [1, 2, 1, 1] \<and> shape v = [1, 2, 1, 1]
        \<and> tget q [0, 1, 0, 0] = 4 \<and> tget k [0, 1, 0, 0] = 5 \<and> tget v [0, 1, 0, 0] = 6"
    using gqa_head_layout [OF gqa_two_groups_fields s3 i(1) i(6) i(1) i(1)]
    by (simp add: tget_def del: One_nat_def)
  show ?thesis using a b c d by blast
qed

end
